theory Spec2Isabelle
  imports Main
begin

section \<open>Values of the documents' Python code\<close>

text \<open>
  The repository holds two example documents: the notebook
  \<^verbatim>\<open>Ledoit-Wolf-vs-OAS-estimation.ipynb\<close> and the rendered page
  \<^verbatim>\<open>2015-06-30-error-bars.html\<close>. Their code cells are short Python scripts that
  call numpy, scipy, scikit-learn and plotly. The libraries are not part of the
  repository: a call into them yields an opaque value that records the function and its
  arguments, so two such values are equal exactly when the same function was called with
  the same arguments.
\<close>

text \<open>
  The generator of \<^verbatim>\<open>np.random\<close>: where it was last initialised (a seed, or the
  entropy the operating system supplied at start-up) and how many normal variates have
  been drawn since.
\<close>

datatype rng_origin = Seed int | Entropy nat

datatype rng = Rng rng_origin nat

text \<open>
  \<open>VFloat neg digits e\<close> is the float literal with the given sign whose decimal digits
  are \<open>digits\<close>, scaled by \<open>10 ^ e\<close>: \<^verbatim>\<open>0.1\<close> is \<open>VFloat False 1 (-1)\<close>, \<^verbatim>\<open>-0.0\<close> is
  \<open>VFloat True 0 (-1)\<close>. No float arithmetic is modelled.
  \<open>VArr\<close> is an ndarray whose elements are known (a matrix is a \<open>VArr\<close> of rows),
  \<open>VLib\<close> a module, function or class of an imported library by its qualified name,
  \<open>VObj\<close> an instance of a library class with the arguments of its constructor,
  \<open>VFitted est X\<close> the estimator \<open>est\<close> after \<^verbatim>\<open>est.fit(X)\<close>,
  \<open>VRes f args kwargs\<close> the opaque result of the library call \<open>f(args, kwargs)\<close>,
  \<open>VAttr v a\<close> the attribute \<open>a\<close> of a library value (a bound method when called), and
  \<open>VSample g n p\<close> the \<open>n \<times> p\<close> matrix of normal variates drawn from generator state \<open>g\<close>.
\<close>

datatype pyval =
    VNone
  | VBool bool
  | VInt int
  | VFloat bool nat int
  | VStr string
  | VList "pyval list"
  | VTuple "pyval list"
  | VDict "(string \<times> pyval) list"
  | VArr "pyval list"
  | VLib string
  | VBuiltin string
  | VObj string "pyval list" "(string \<times> pyval) list"
  | VFitted pyval pyval
  | VRes string "pyval list" "(string \<times> pyval) list"
  | VAttr pyval string
  | VSample rng nat nat

datatype error =
    NameError string
  | TypeError string
  | AttributeError string
  | IndexError
  | Unmodelled string

text \<open>
  What a cell does that is visible outside the values it binds: a call into a library
  (\<open>Lib\<close>, by qualified name), a call that sends its arguments out of the kernel
  (\<open>Remote\<close>: the plotting service, the notebook's display, the publisher), a line
  printed, a shell command run by IPython's \<^verbatim>\<open>!\<close> escape.
\<close>

datatype event =
    Lib string
  | Remote string "pyval list" "(string \<times> pyval) list"
  | Stdout pyval
  | Shell string

text \<open>
  The state of a running IPython kernel: the user namespace, the state of numpy's global
  random generator, the trace of events so far, and the answer of the operating system
  to a shell command (its exit status).
\<close>

record kernel =
  names :: "string \<rightharpoonup> pyval"
  rng_state :: rng
  trace :: "event list"
  exit_status :: "string \<Rightarrow> int"

type_synonym expr = "kernel \<Rightarrow> (error + pyval) \<times> kernel"
type_synonym stmt = "kernel \<Rightarrow> error option \<times> kernel"

section \<open>Expressions\<close>

definition builtins :: "string list" where
  "builtins = [''dict'', ''range'', ''enumerate'']"

definition lit :: "pyval \<Rightarrow> expr" where
  "lit v s = (Inr v, s)"

text \<open>A name is looked up in the user namespace, then among the builtins.\<close>

definition var :: "string \<Rightarrow> expr" where
  "var x s =
     (case names s x of
        Some v \<Rightarrow> (Inr v, s)
      | None \<Rightarrow> if x \<in> set builtins then (Inr (VBuiltin x), s) else (Inl (NameError x), s))"

text \<open>Arguments are evaluated left to right; the first exception ends the evaluation.\<close>

fun eval_list :: "expr list \<Rightarrow> kernel \<Rightarrow> (error + pyval list) \<times> kernel" where
  "eval_list [] s = (Inr [], s)"
| "eval_list (e # es) s =
     (case e s of
        (Inl err, s1) \<Rightarrow> (Inl err, s1)
      | (Inr v, s1) \<Rightarrow>
          (case eval_list es s1 of
             (Inl err, s2) \<Rightarrow> (Inl err, s2)
           | (Inr vs, s2) \<Rightarrow> (Inr (v # vs), s2)))"

fun eval_kwargs ::
  "(string \<times> expr) list \<Rightarrow> kernel \<Rightarrow> (error + (string \<times> pyval) list) \<times> kernel" where
  "eval_kwargs [] s = (Inr [], s)"
| "eval_kwargs ((k, e) # kes) s =
     (case e s of
        (Inl err, s1) \<Rightarrow> (Inl err, s1)
      | (Inr v, s1) \<Rightarrow>
          (case eval_kwargs kes s1 of
             (Inl err, s2) \<Rightarrow> (Inl err, s2)
           | (Inr kvs, s2) \<Rightarrow> (Inr ((k, v) # kvs), s2)))"

definition list_display :: "expr list \<Rightarrow> expr" where
  "list_display es s =
     (case eval_list es s of (Inl err, s1) \<Rightarrow> (Inl err, s1) | (Inr vs, s1) \<Rightarrow> (Inr (VList vs), s1))"

definition tuple_display :: "expr list \<Rightarrow> expr" where
  "tuple_display es s =
     (case eval_list es s of (Inl err, s1) \<Rightarrow> (Inl err, s1) | (Inr vs, s1) \<Rightarrow> (Inr (VTuple vs), s1))"

text \<open>The number of elements of an ndarray (\<^verbatim>\<open>.size\<close>).\<close>

fun array_size :: "pyval \<Rightarrow> nat" where
  "array_size (VArr xs) = sum_list (map array_size xs)"
| "array_size v = 1"

text \<open>
  Attribute access. A module's attribute is the library entity one level down; an
  ndarray knows its \<^verbatim>\<open>size\<close>; any other attribute of a library value is opaque.
  Plain Python values have none of the attributes the documents use.
\<close>

fun get_attr :: "pyval \<Rightarrow> string \<Rightarrow> error + pyval" where
  "get_attr (VLib p) a = Inr (VLib (p @ ''.'' @ a))"
| "get_attr (VArr xs) a =
     (if a = ''size'' then Inr (VInt (int (array_size (VArr xs)))) else Inr (VAttr (VArr xs) a))"
| "get_attr (VObj c args kws) a = Inr (VAttr (VObj c args kws) a)"
| "get_attr (VFitted est X) a = Inr (VAttr (VFitted est X) a)"
| "get_attr (VRes f args kws) a = Inr (VAttr (VRes f args kws) a)"
| "get_attr (VAttr v b) a = Inr (VAttr (VAttr v b) a)"
| "get_attr (VSample g n p) a = Inr (VAttr (VSample g n p) a)"
| "get_attr v a = Inl (AttributeError a)"

definition attr :: "expr \<Rightarrow> string \<Rightarrow> expr" where
  "attr e a s =
     (case e s of
        (Inl err, s1) \<Rightarrow> (Inl err, s1)
      | (Inr v, s1) \<Rightarrow> (case get_attr v a of Inl err \<Rightarrow> (Inl err, s1) | Inr w \<Rightarrow> (Inr w, s1)))"

section \<open>The libraries, as far as the documents use them\<close>

text \<open>
  What the model knows of the libraries: which qualified names are classes (a call
  constructs an instance), which of these are covariance estimators of scikit-learn
  (\<^verbatim>\<open>fit\<close> changes the instance), and which calls send their arguments out of the
  kernel. Every other library call is a function whose result is opaque.
\<close>

definition lib_classes :: "string list" where
  "lib_classes =
     [''plotly.graph_objs.Scatter'', ''plotly.graph_objs.Bar'', ''plotly.graph_objs.Layout'',
      ''plotly.graph_objs.Figure'', ''sklearn.covariance.LedoitWolf'',
      ''sklearn.covariance.OAS'', ''IPython.display.HTML'']"

definition estimators :: "string list" where
  "estimators = [''sklearn.covariance.LedoitWolf'', ''sklearn.covariance.OAS'']"

definition remote_calls :: "string list" where
  "remote_calls = [''plotly.plotly.iplot'', ''IPython.display.display'', ''publisher.publish'']"

fun as_ints :: "pyval list \<Rightarrow> int list option" where
  "as_ints [] = Some []"
| "as_ints (VInt n # vs) = (case as_ints vs of None \<Rightarrow> None | Some ns \<Rightarrow> Some (n # ns))"
| "as_ints (v # vs) = None"

definition as_shape :: "pyval \<Rightarrow> (nat \<times> nat) option" where
  "as_shape v =
     (case v of
        VTuple xs \<Rightarrow>
          (case as_ints xs of
             Some [n, m] \<Rightarrow> if 0 \<le> n \<and> 0 \<le> m then Some (nat n, nat m) else None
           | _ \<Rightarrow> None)
      | _ \<Rightarrow> None)"

text \<open>\<^verbatim>\<open>a, a + k, a + 2k, ...\<close> below \<open>b\<close>, for a positive step.\<close>

definition int_range :: "int \<Rightarrow> int \<Rightarrow> int \<Rightarrow> int list" where
  "int_range a b k = map (\<lambda>i. a + int i * k) [0..<nat ((b - a + k - 1) div k)]"

text \<open>\<^verbatim>\<open>np.random.seed(k)\<close> re-initialises the global generator.\<close>

definition np_random_seed :: "pyval list \<Rightarrow> (string \<times> pyval) list \<Rightarrow> kernel \<Rightarrow> (error + pyval) \<times> kernel" where
  "np_random_seed args kws s =
     (case (as_ints args, kws) of
        (Some [k], []) \<Rightarrow>
          (Inr VNone,
           s\<lparr>rng_state := Rng (Seed k) 0, trace := trace s @ [Lib ''numpy.random.seed'']\<rparr>)
      | _ \<Rightarrow> (Inl (Unmodelled ''numpy.random.seed''), s))"

text \<open>
  \<^verbatim>\<open>np.random.normal(size=(n, p))\<close> draws \<open>n * p\<close> variates: the sample is determined by
  the state of the generator before the call, and the generator moves on.
\<close>

definition np_random_normal :: "pyval list \<Rightarrow> (string \<times> pyval) list \<Rightarrow> kernel \<Rightarrow> (error + pyval) \<times> kernel" where
  "np_random_normal args kws s =
     (case (args, kws) of
        ([], [(k, shp)]) \<Rightarrow>
          (case (k = ''size'', as_shape shp, rng_state s) of
             (True, Some (n, p), Rng origin drawn) \<Rightarrow>
               (Inr (VSample (Rng origin drawn) n p),
                s\<lparr>rng_state := Rng origin (drawn + n * p),
                  trace := trace s @ [Lib ''numpy.random.normal'']\<rparr>)
           | _ \<Rightarrow> (Inl (Unmodelled ''numpy.random.normal''), s))
      | _ \<Rightarrow> (Inl (Unmodelled ''numpy.random.normal''), s))"

definition np_arange :: "pyval list \<Rightarrow> (string \<times> pyval) list \<Rightarrow> kernel \<Rightarrow> (error + pyval) \<times> kernel" where
  "np_arange args kws s =
     (let s1 = s\<lparr>trace := trace s @ [Lib ''numpy.arange'']\<rparr> in
      case (as_ints args, kws) of
        (Some [n], []) \<Rightarrow> (Inr (VArr (map VInt (int_range 0 n 1))), s1)
      | (Some [a, b], []) \<Rightarrow> (Inr (VArr (map VInt (int_range a b 1))), s1)
      | (Some [a, b, k], []) \<Rightarrow>
          if 0 < k then (Inr (VArr (map VInt (int_range a b k))), s1)
          else (Inl (Unmodelled ''numpy.arange''), s)
      | _ \<Rightarrow> (Inl (Unmodelled ''numpy.arange''), s))"

definition np_zeros :: "pyval list \<Rightarrow> (string \<times> pyval) list \<Rightarrow> kernel \<Rightarrow> (error + pyval) \<times> kernel" where
  "np_zeros args kws s =
     (case (args, kws) of
        ([shp], []) \<Rightarrow>
          (case as_shape shp of
             Some (n, p) \<Rightarrow>
               (Inr (VArr (replicate n (VArr (replicate p (VFloat False 0 (-1)))))),
                s\<lparr>trace := trace s @ [Lib ''numpy.zeros'']\<rparr>)
           | None \<Rightarrow> (Inl (Unmodelled ''numpy.zeros''), s))
      | _ \<Rightarrow> (Inl (Unmodelled ''numpy.zeros''), s))"

text \<open>A call of the library entity with qualified name \<open>p\<close>.\<close>

definition call_lib :: "string \<Rightarrow> pyval list \<Rightarrow> (string \<times> pyval) list \<Rightarrow> kernel \<Rightarrow> (error + pyval) \<times> kernel" where
  "call_lib p args kws s =
     (if p = ''numpy.random.seed'' then np_random_seed args kws s
      else if p = ''numpy.random.normal'' then np_random_normal args kws s
      else if p = ''numpy.arange'' then np_arange args kws s
      else if p = ''numpy.zeros'' then np_zeros args kws s
      else if p \<in> set remote_calls then
        (Inr (VRes p args kws), s\<lparr>trace := trace s @ [Remote p args kws]\<rparr>)
      else if p \<in> set lib_classes then
        (Inr (VObj p args kws), s\<lparr>trace := trace s @ [Lib p]\<rparr>)
      else (Inr (VRes p args kws), s\<lparr>trace := trace s @ [Lib p]\<rparr>))"

text \<open>The class whose method a call on the value runs, as a qualified name.\<close>

fun class_of :: "pyval \<Rightarrow> string option" where
  "class_of (VArr xs) = Some ''numpy.ndarray''"
| "class_of (VSample g n p) = Some ''numpy.ndarray''"
| "class_of (VObj c args kws) = Some c"
| "class_of (VFitted est X) = class_of est"
| "class_of (VRes f args kws) = Some (f @ ''()'')"
| "class_of v = None"

text \<open>
  A method call \<^verbatim>\<open>recv.m(args)\<close>: the result and the receiver after the call.
  \<^verbatim>\<open>fit(X)\<close> on an estimator returns the estimator itself, now fitted on \<open>X\<close> (a
  second \<^verbatim>\<open>fit\<close> replaces the first); every other method leaves the receiver as it is
  and returns an opaque result that records the receiver and the arguments.
\<close>

definition invoke_method ::
  "pyval \<Rightarrow> string \<Rightarrow> pyval list \<Rightarrow> (string \<times> pyval) list \<Rightarrow> kernel \<Rightarrow> (error + pyval \<times> pyval) \<times> kernel" where
  "invoke_method recv m args kws s =
     (case class_of recv of
        None \<Rightarrow> (Inl (AttributeError m), s)
      | Some c \<Rightarrow>
          (let s1 = s\<lparr>trace := trace s @ [Lib (c @ ''.'' @ m)]\<rparr> in
           if c \<in> set estimators \<and> m = ''fit'' then
             (case (args, kws) of
                ([X], []) \<Rightarrow>
                  (let fitted = VFitted (case recv of VFitted est X0 \<Rightarrow> est | _ \<Rightarrow> recv) X
                   in (Inr (fitted, fitted), s1))
              | _ \<Rightarrow> (Inl (Unmodelled (c @ ''.fit'')), s))
           else (Inr (VRes (c @ ''.'' @ m) (recv # args) kws, recv), s1)))"

fun iter_values :: "pyval \<Rightarrow> pyval list option" where
  "iter_values (VList xs) = Some xs"
| "iter_values (VTuple xs) = Some xs"
| "iter_values (VArr xs) = Some xs"
| "iter_values v = None"

text \<open>
  The builtins the documents call. The notebook runs on Python 2 (its kernel is
  \<^verbatim>\<open>python2\<close>), where \<^verbatim>\<open>range\<close> returns a list.
\<close>

definition call_builtin :: "string \<Rightarrow> pyval list \<Rightarrow> (string \<times> pyval) list \<Rightarrow> kernel \<Rightarrow> (error + pyval) \<times> kernel" where
  "call_builtin b args kws s =
     (if b = ''dict'' then
        (case args of [] \<Rightarrow> (Inr (VDict kws), s) | _ \<Rightarrow> (Inl (Unmodelled ''dict''), s))
      else if b = ''range'' then
        (case (as_ints args, kws) of
           (Some [n], []) \<Rightarrow> (Inr (VList (map VInt (int_range 0 n 1))), s)
         | _ \<Rightarrow> (Inl (Unmodelled ''range''), s))
      else if b = ''enumerate'' then
        (case (args, kws) of
           ([v], []) \<Rightarrow>
             (case iter_values v of
                None \<Rightarrow> (Inl (TypeError ''object is not iterable''), s)
              | Some xs \<Rightarrow>
                  (Inr (VList (map (\<lambda>(k, x). VTuple [VInt (int k), x]) (enumerate 0 xs))), s))
         | _ \<Rightarrow> (Inl (Unmodelled ''enumerate''), s))
      else (Inl (NameError b), s))"

fun apply_value :: "pyval \<Rightarrow> pyval list \<Rightarrow> (string \<times> pyval) list \<Rightarrow> kernel \<Rightarrow> (error + pyval) \<times> kernel" where
  "apply_value (VBuiltin b) args kws s = call_builtin b args kws s"
| "apply_value (VLib p) args kws s = call_lib p args kws s"
| "apply_value (VAttr recv m) args kws s =
     (case invoke_method recv m args kws s of
        (Inl err, s1) \<Rightarrow> (Inl err, s1)
      | (Inr (res, recv'), s1) \<Rightarrow> (Inr res, s1))"
| "apply_value v args kws s = (Inl (TypeError ''object is not callable''), s)"

text \<open>\<^verbatim>\<open>f(args, kwargs)\<close>: the callee first, then the arguments, then the call.\<close>

definition call :: "expr \<Rightarrow> expr list \<Rightarrow> (string \<times> expr) list \<Rightarrow> expr" where
  "call f args kws s =
     (case f s of
        (Inl err, s1) \<Rightarrow> (Inl err, s1)
      | (Inr callee, s1) \<Rightarrow>
          (case eval_list args s1 of
             (Inl err, s2) \<Rightarrow> (Inl err, s2)
           | (Inr vs, s2) \<Rightarrow>
               (case eval_kwargs kws s2 of
                  (Inl err, s3) \<Rightarrow> (Inl err, s3)
                | (Inr kvs, s3) \<Rightarrow> apply_value callee vs kvs s3)))"

text \<open>
  \<^verbatim>\<open>x.m(args, kwargs)\<close> where \<open>x\<close> is a plain name. When \<open>x\<close> is bound to an object, the
  method may change it (\<^verbatim>\<open>lw.fit(X)\<close>): the name is then bound to the changed object.
  When \<open>x\<close> is bound to a module (\<^verbatim>\<open>go.Scatter(...)\<close>), this is a call of the module's
  attribute.
\<close>

definition call_method :: "string \<Rightarrow> string \<Rightarrow> expr list \<Rightarrow> (string \<times> expr) list \<Rightarrow> expr" where
  "call_method x m args kws s =
     (case var x s of
        (Inl err, s1) \<Rightarrow> (Inl err, s1)
      | (Inr recv, s1) \<Rightarrow>
          (case get_attr recv m of
             Inl err \<Rightarrow> (Inl err, s1)
           | Inr callee \<Rightarrow>
               (case eval_list args s1 of
                  (Inl err, s2) \<Rightarrow> (Inl err, s2)
                | (Inr vs, s2) \<Rightarrow>
                    (case eval_kwargs kws s2 of
                       (Inl err, s3) \<Rightarrow> (Inl err, s3)
                     | (Inr kvs, s3) \<Rightarrow>
                         (case callee of
                            VAttr r mm \<Rightarrow>
                              (case invoke_method r mm vs kvs s3 of
                                 (Inl err, s4) \<Rightarrow> (Inl err, s4)
                               | (Inr (res, r'), s4) \<Rightarrow>
                                   (Inr res,
                                    if r' = r then s4 else s4\<lparr>names := (names s4)(x \<mapsto> r')\<rparr>))
                          | _ \<Rightarrow> apply_value callee vs kvs s3)))))"

text \<open>
  \<^verbatim>\<open>a ** b\<close>. With an ndarray on the right, numpy computes the power element by
  element (\<^verbatim>\<open>ndarray.__rpow__\<close>); the result is opaque.
\<close>

definition pow :: "expr \<Rightarrow> expr \<Rightarrow> expr" where
  "pow e1 e2 s =
     (case e1 s of
        (Inl err, s1) \<Rightarrow> (Inl err, s1)
      | (Inr a, s1) \<Rightarrow>
          (case e2 s1 of
             (Inl err, s2) \<Rightarrow> (Inl err, s2)
           | (Inr b, s2) \<Rightarrow>
               (if class_of b = Some ''numpy.ndarray'' then
                  (Inr (VRes ''numpy.ndarray.__rpow__'' [b, a] []),
                   s2\<lparr>trace := trace s2 @ [Lib ''numpy.ndarray.__rpow__'']\<rparr>)
                else (Inl (Unmodelled ''**''), s2))))"

text \<open>\<^verbatim>\<open>-e\<close> on a number.\<close>

definition neg :: "expr \<Rightarrow> expr" where
  "neg e s =
     (case e s of
        (Inl err, s1) \<Rightarrow> (Inl err, s1)
      | (Inr (VInt n), s1) \<Rightarrow> (Inr (VInt (- n)), s1)
      | (Inr (VFloat sg d x), s1) \<Rightarrow> (Inr (VFloat (\<not> sg) d x), s1)
      | (Inr v, s1) \<Rightarrow> (Inl (TypeError ''bad operand type for unary -''), s1))"

section \<open>Statements\<close>

definition assign :: "string \<Rightarrow> expr \<Rightarrow> stmt" where
  "assign x e s =
     (case e s of
        (Inl err, s1) \<Rightarrow> (Some err, s1)
      | (Inr v, s1) \<Rightarrow> (None, s1\<lparr>names := (names s1)(x \<mapsto> v)\<rparr>))"

text \<open>A Python index into a sequence of length \<open>n\<close>: negative indices count from the end.\<close>

definition py_index :: "nat \<Rightarrow> int \<Rightarrow> nat option" where
  "py_index n i =
     (let j = (if i < 0 then int n + i else i)
      in if 0 \<le> j \<and> j < int n then Some (nat j) else None)"

text \<open>\<^verbatim>\<open>a[i, j] = v\<close> on a matrix: the new matrix, or the exception.\<close>

definition set_item :: "pyval \<Rightarrow> pyval list \<Rightarrow> pyval \<Rightarrow> error + pyval" where
  "set_item a idx v =
     (case (a, as_ints idx) of
        (VArr rows, Some [i, j]) \<Rightarrow>
          (case py_index (length rows) i of
             None \<Rightarrow> Inl IndexError
           | Some r \<Rightarrow>
               (case rows ! r of
                  VArr row \<Rightarrow>
                    (case py_index (length row) j of
                       None \<Rightarrow> Inl IndexError
                     | Some c \<Rightarrow> Inr (VArr (rows[r := VArr (row[c := v])])))
                | _ \<Rightarrow> Inl IndexError))
      | _ \<Rightarrow> Inl (Unmodelled ''__setitem__''))"

text \<open>
  \<^verbatim>\<open>x[i, j] = e\<close>: Python evaluates the right-hand side, then the target \<open>x\<close>, then the
  indices, and stores in place. The array has no other name in these documents, so
  storing in place is binding \<open>x\<close> to the updated array.
\<close>

definition assign_item :: "string \<Rightarrow> expr list \<Rightarrow> expr \<Rightarrow> stmt" where
  "assign_item x idx e s =
     (case e s of
        (Inl err, s1) \<Rightarrow> (Some err, s1)
      | (Inr v, s1) \<Rightarrow>
          (case var x s1 of
             (Inl err, s2) \<Rightarrow> (Some err, s2)
           | (Inr a, s2) \<Rightarrow>
               (case eval_list idx s2 of
                  (Inl err, s3) \<Rightarrow> (Some err, s3)
                | (Inr ixs, s3) \<Rightarrow>
                    (case set_item a ixs v of
                       Inl err \<Rightarrow> (Some err, s3)
                     | Inr a' \<Rightarrow> (None, s3\<lparr>names := (names s3)(x \<mapsto> a')\<rparr>)))))"

definition expr_stmt :: "expr \<Rightarrow> stmt" where
  "expr_stmt e s = (case e s of (Inl err, s1) \<Rightarrow> (Some err, s1) | (Inr v, s1) \<Rightarrow> (None, s1))"

definition print_stmt :: "expr \<Rightarrow> stmt" where
  "print_stmt e s =
     (case e s of
        (Inl err, s1) \<Rightarrow> (Some err, s1)
      | (Inr v, s1) \<Rightarrow> (None, s1\<lparr>trace := trace s1 @ [Stdout v]\<rparr>))"

text \<open>
  \<^verbatim>\<open>import a.b as x\<close> (or \<^verbatim>\<open>import a\<close>, which binds \<open>a\<close>) and
  \<^verbatim>\<open>from a.b import x, y\<close>. The libraries are taken to be installed.
\<close>

definition import_as :: "string \<Rightarrow> string \<Rightarrow> stmt" where
  "import_as path x s = (None, s\<lparr>names := (names s)(x \<mapsto> VLib path)\<rparr>)"

fun from_import :: "string \<Rightarrow> string list \<Rightarrow> stmt" where
  "from_import path [] s = (None, s)"
| "from_import path (x # xs) s =
     from_import path xs (s\<lparr>names := (names s)(x \<mapsto> VLib (path @ ''.'' @ x))\<rparr>)"

text \<open>
  IPython's \<^verbatim>\<open>! command\<close>: the command runs, its exit status is bound to
  \<^verbatim>\<open>_exit_code\<close>, and the cell goes on whatever the status is.
\<close>

definition shell :: "string \<Rightarrow> stmt" where
  "shell cmd s =
     (None, s\<lparr>names := (names s)(''_exit_code'' \<mapsto> VInt (exit_status s cmd)),
              trace := trace s @ [Shell cmd]\<rparr>)"

text \<open>Statements run in order; an exception ends the run and nothing catches it.\<close>

fun block :: "stmt list \<Rightarrow> stmt" where
  "block [] s = (None, s)"
| "block (c # cs) s = (case c s of (Some err, s1) \<Rightarrow> (Some err, s1) | (None, s1) \<Rightarrow> block cs s1)"

text \<open>Binding the loop targets: one name takes the value, several unpack a sequence.\<close>

fun bind_targets :: "string list \<Rightarrow> pyval \<Rightarrow> stmt" where
  "bind_targets [x] v s = (None, s\<lparr>names := (names s)(x \<mapsto> v)\<rparr>)"
| "bind_targets xs v s =
     (case iter_values v of
        None \<Rightarrow> (Some (TypeError ''object is not iterable''), s)
      | Some vs \<Rightarrow>
          if length vs = length xs
          then (None, s\<lparr>names := fold (\<lambda>(x, w) m. m(x \<mapsto> w)) (zip xs vs) (names s)\<rparr>)
          else (Some (Unmodelled ''unpack''), s))"

fun for_each :: "string list \<Rightarrow> stmt \<Rightarrow> pyval list \<Rightarrow> stmt" where
  "for_each xs body [] s = (None, s)"
| "for_each xs body (v # vs) s =
     (case block [bind_targets xs v, body] s of
        (Some err, s1) \<Rightarrow> (Some err, s1)
      | (None, s1) \<Rightarrow> for_each xs body vs s1)"

text \<open>\<^verbatim>\<open>for xs in e: body\<close>. The iterable is evaluated once, before the first round.\<close>

definition for_in :: "string list \<Rightarrow> expr \<Rightarrow> stmt \<Rightarrow> stmt" where
  "for_in xs e body s =
     (case e s of
        (Inl err, s1) \<Rightarrow> (Some err, s1)
      | (Inr v, s1) \<Rightarrow>
          (case iter_values v of
             None \<Rightarrow> (Some (TypeError ''object is not iterable''), s1)
           | Some vs \<Rightarrow> for_each xs body vs s1))"

section \<open>The error-bars page\<close>

text \<open>Literals, and list displays of literals.\<close>

definition num :: "int \<Rightarrow> expr" where
  "num n = lit (VInt n)"

definition str :: "string \<Rightarrow> expr" where
  "str x = lit (VStr x)"

definition flt :: "nat \<Rightarrow> int \<Rightarrow> expr" where
  "flt d e = lit (VFloat False d e)"

definition nums :: "int list \<Rightarrow> expr" where
  "nums ns = list_display (map num ns)"

text \<open>The seven code cells of \<^verbatim>\<open>2015-06-30-error-bars.html\<close>, named by the file name each gives its chart.\<close>

definition basic_error_bar :: stmt where
  "basic_error_bar = block
     [import_as ''plotly.plotly'' ''py'',
      import_as ''plotly.graph_objs'' ''go'',
      assign ''data'' (list_display
        [call_method ''go'' ''Scatter'' []
           [(''x'', nums [0, 1, 2]),
            (''y'', nums [6, 10, 2]),
            (''error_y'', call (var ''dict'') []
               [(''type'', str ''data''),
                (''array'', nums [1, 2, 3]),
                (''visible'', lit (VBool True))])]]),
      expr_stmt (call_method ''py'' ''iplot'' [var ''data''] [(''filename'', str ''basic-error-bar'')])]"

definition error_bar_asymmetric_array :: stmt where
  "error_bar_asymmetric_array = block
     [import_as ''plotly.plotly'' ''py'',
      import_as ''plotly.graph_objs'' ''go'',
      assign ''data'' (list_display
        [call_method ''go'' ''Scatter'' []
           [(''x'', nums [1, 2, 3, 4]),
            (''y'', nums [2, 1, 3, 4]),
            (''error_y'', call (var ''dict'') []
               [(''type'', str ''data''),
                (''symmetric'', lit (VBool False)),
                (''array'', list_display [flt 1 (-1), flt 2 (-1), flt 1 (-1), flt 1 (-1)]),
                (''arrayminus'', list_display [flt 2 (-1), flt 4 (-1), num 1, flt 2 (-1)])])]]),
      expr_stmt (call_method ''py'' ''iplot'' [var ''data'']
        [(''filename'', str ''error-bar-asymmetric-array'')])]"

definition percent_error_bar :: stmt where
  "percent_error_bar = block
     [import_as ''plotly.plotly'' ''py'',
      import_as ''plotly.graph_objs'' ''go'',
      assign ''data'' (list_display
        [call_method ''go'' ''Scatter'' []
           [(''x'', nums [0, 1, 2]),
            (''y'', nums [6, 10, 2]),
            (''error_y'', call (var ''dict'') []
               [(''type'', str ''percent''),
                (''value'', num 50),
                (''visible'', lit (VBool True))])]]),
      expr_stmt (call_method ''py'' ''iplot'' [var ''data''] [(''filename'', str ''percent-error-bar'')])]"

definition error_bar_asymmetric_constant :: stmt where
  "error_bar_asymmetric_constant = block
     [import_as ''plotly.plotly'' ''py'',
      import_as ''plotly.graph_objs'' ''go'',
      assign ''data'' (list_display
        [call_method ''go'' ''Scatter'' []
           [(''x'', nums [1, 2, 3, 4]),
            (''y'', nums [2, 1, 3, 4]),
            (''error_y'', call (var ''dict'') []
               [(''type'', str ''percent''),
                (''symmetric'', lit (VBool False)),
                (''value'', num 15),
                (''valueminus'', num 25)])]]),
      expr_stmt (call_method ''py'' ''iplot'' [var ''data'']
        [(''filename'', str ''error-bar-asymmetric-constant'')])]"

definition error_bar_horizontal :: stmt where
  "error_bar_horizontal = block
     [import_as ''plotly.plotly'' ''py'',
      import_as ''plotly.graph_objs'' ''go'',
      assign ''data'' (list_display
        [call_method ''go'' ''Scatter'' []
           [(''x'', nums [1, 2, 3, 4]),
            (''y'', nums [2, 1, 3, 4]),
            (''error_x'', call (var ''dict'') []
               [(''type'', str ''percent''),
                (''value'', num 10)])]]),
      expr_stmt (call_method ''py'' ''iplot'' [var ''data''] [(''filename'', str ''error-bar-horizontal'')])]"

definition error_bar_bar :: stmt where
  "error_bar_bar = block
     [import_as ''plotly.plotly'' ''py'',
      import_as ''plotly.graph_objs'' ''go'',
      assign ''trace1'' (call_method ''go'' ''Bar'' []
        [(''x'', list_display [str ''Trial 1'', str ''Trial 2'', str ''Trial 3'']),
         (''y'', nums [3, 6, 4]),
         (''name'', str ''Control''),
         (''error_y'', call (var ''dict'') []
            [(''type'', str ''data''),
             (''array'', list_display [num 1, flt 5 (-1), flt 15 (-1)]),
             (''visible'', lit (VBool True))])]),
      assign ''trace2'' (call_method ''go'' ''Bar'' []
        [(''x'', list_display [str ''Trial 1'', str ''Trial 2'', str ''Trial 3'']),
         (''y'', nums [4, 7, 3]),
         (''name'', str ''Experimental''),
         (''error_y'', call (var ''dict'') []
            [(''type'', str ''data''),
             (''array'', list_display [flt 5 (-1), num 1, num 2]),
             (''visible'', lit (VBool True))])]),
      assign ''data'' (list_display [var ''trace1'', var ''trace2'']),
      assign ''layout'' (call_method ''go'' ''Layout'' [] [(''barmode'', str ''group'')]),
      assign ''fig'' (call_method ''go'' ''Figure'' [] [(''data'', var ''data''), (''layout'', var ''layout'')]),
      expr_stmt (call_method ''py'' ''iplot'' [var ''fig''] [(''filename'', str ''error-bar-bar'')])]"

definition error_bar_style :: stmt where
  "error_bar_style = block
     [import_as ''plotly.plotly'' ''py'',
      import_as ''plotly.graph_objs'' ''go'',
      import_as ''numpy'' ''np'',
      assign ''x_theo'' (call_method ''np'' ''linspace'' [neg (num 4), num 4, num 100] []),
      assign ''sincx'' (call_method ''np'' ''sinc'' [var ''x_theo''] []),
      assign ''x'' (list_display
        [neg (flt 38 (-1)), neg (flt 303 (-2)), neg (flt 191 (-2)), neg (flt 146 (-2)),
         neg (flt 89 (-2)), neg (flt 24 (-2)), neg (flt 0 (-1)), flt 41 (-2), flt 89 (-2),
         flt 101 (-2), flt 191 (-2), flt 228 (-2), flt 279 (-2), flt 356 (-2)]),
      assign ''y'' (list_display
        [neg (flt 2 (-2)), flt 4 (-2), neg (flt 1 (-2)), neg (flt 27 (-2)), flt 36 (-2),
         flt 75 (-2), flt 103 (-2), flt 65 (-2), flt 28 (-2), flt 2 (-2), neg (flt 11 (-2)),
         flt 16 (-2), flt 4 (-2), neg (flt 15 (-2))]),
      assign ''trace1'' (call_method ''go'' ''Scatter'' []
        [(''x'', var ''x_theo''),
         (''y'', var ''sincx''),
         (''name'', str ''sinc(x)'')]),
      assign ''trace2'' (call_method ''go'' ''Scatter'' []
        [(''x'', var ''x''),
         (''y'', var ''y''),
         (''mode'', str ''markers''),
         (''name'', str ''measured''),
         (''error_y'', call (var ''dict'') []
            [(''type'', str ''constant''),
             (''value'', flt 1 (-1)),
             (''color'', str ''#85144B''),
             (''thickness'', flt 15 (-1)),
             (''width'', num 3)]),
         (''error_x'', call (var ''dict'') []
            [(''type'', str ''constant''),
             (''value'', flt 2 (-1)),
             (''color'', str ''#85144B''),
             (''thickness'', flt 15 (-1)),
             (''width'', num 3)]),
         (''marker'', call (var ''dict'') []
            [(''color'', str ''#85144B''),
             (''size'', num 8)])]),
      assign ''data'' (list_display [var ''trace1'', var ''trace2'']),
      expr_stmt (call_method ''py'' ''iplot'' [var ''data''] [(''filename'', str ''error-bar-style'')])]"

definition error_bars_page :: "stmt list" where
  "error_bars_page =
     [basic_error_bar, error_bar_asymmetric_array, percent_error_bar,
      error_bar_asymmetric_constant, error_bar_horizontal, error_bar_bar, error_bar_style]"

text \<open>
  The YAML front matter of the page, in the order of the file (\<^verbatim>\<open>name\<close> and
  \<^verbatim>\<open>has_thumbnail\<close> are written twice).
\<close>

definition front_matter :: "(string \<times> string) list" where
  "front_matter =
     [(''permalink'', ''python/error-bars/''),
      (''description'', ''How to add error-bars to charts in Python with Plotly.''),
      (''name'', ''Error Bars | plotly''),
      (''has_thumbnail'', ''true''),
      (''thumbnail'', ''thumbnail/error-bar.jpg''),
      (''layout'', ''user-guide''),
      (''name'', ''Error Bars''),
      (''language'', ''python''),
      (''title'', ''Error Bars | plotly''),
      (''display_as'', ''statistical''),
      (''has_thumbnail'', ''true''),
      (''page_type'', ''example_index''),
      (''order'', ''1''),
      (''ipynb'', ''~notebook_demo/18'')]"

text \<open>
  What the site generator reads for a key: a YAML mapping with a repeated key keeps the
  last value.
\<close>

definition metadata :: "(string \<times> string) list \<Rightarrow> string \<Rightarrow> string option" where
  "metadata fm k = map_of (rev fm) k"

section \<open>The notebook\<close>

text \<open>The code cells of \<^verbatim>\<open>Ledoit-Wolf-vs-OAS-estimation.ipynb\<close>, in the order of the file.\<close>

definition version_cell :: stmt where
  "version_cell = block
     [import_as ''sklearn'' ''sklearn'',
      expr_stmt (attr (var ''sklearn'') ''__version__'')]"

definition imports_cell :: stmt where
  "imports_cell = block
     [print_stmt (var ''__doc__''),
      import_as ''plotly.plotly'' ''py'',
      import_as ''plotly.graph_objs'' ''go'',
      import_as ''numpy'' ''np'',
      from_import ''scipy.linalg'' [''toeplitz'', ''cholesky''],
      from_import ''sklearn.covariance'' [''LedoitWolf'', ''OAS'']]"

text \<open>The body of the inner loop: one sample, fitted by both estimators.\<close>

definition simulation_body :: stmt where
  "simulation_body = block
     [assign ''X'' (call_method ''np'' ''dot''
        [call (attr (attr (var ''np'') ''random'') ''normal'') []
           [(''size'', tuple_display [var ''n_samples'', var ''n_features''])],
         attr (var ''coloring_matrix'') ''T''] []),
      assign ''lw'' (call (var ''LedoitWolf'') []
        [(''store_precision'', lit (VBool False)), (''assume_centered'', lit (VBool True))]),
      expr_stmt (call_method ''lw'' ''fit'' [var ''X''] []),
      assign_item ''lw_mse'' [var ''i'', var ''j'']
        (call_method ''lw'' ''error_norm'' [var ''real_cov''] [(''scaling'', lit (VBool False))]),
      assign_item ''lw_shrinkage'' [var ''i'', var ''j''] (attr (var ''lw'') ''shrinkage_''),
      assign ''oa'' (call (var ''OAS'') []
        [(''store_precision'', lit (VBool False)), (''assume_centered'', lit (VBool True))]),
      expr_stmt (call_method ''oa'' ''fit'' [var ''X''] []),
      assign_item ''oa_mse'' [var ''i'', var ''j'']
        (call_method ''oa'' ''error_norm'' [var ''real_cov''] [(''scaling'', lit (VBool False))]),
      assign_item ''oa_shrinkage'' [var ''i'', var ''j''] (attr (var ''oa'') ''shrinkage_'')]"

text \<open>The double loop: 25 sample sizes, 100 repetitions each.\<close>

definition simulation_loop :: stmt where
  "simulation_loop =
     for_in [''i'', ''n_samples''] (call (var ''enumerate'') [var ''n_samples_range''] [])
       (for_in [''j''] (call (var ''range'') [var ''repeat''] []) simulation_body)"

definition calculations_cell :: stmt where
  "calculations_cell = block
     [expr_stmt (call (attr (attr (var ''np'') ''random'') ''seed'') [num 0] []),
      assign ''n_features'' (num 100),
      assign ''r'' (flt 1 (-1)),
      assign ''real_cov'' (call (var ''toeplitz'')
        [pow (var ''r'') (call_method ''np'' ''arange'' [var ''n_features''] [])] []),
      assign ''coloring_matrix'' (call (var ''cholesky'') [var ''real_cov''] []),
      assign ''n_samples_range'' (call_method ''np'' ''arange'' [num 6, num 31, num 1] []),
      assign ''repeat'' (num 100),
      assign ''lw_mse'' (call_method ''np'' ''zeros''
        [tuple_display [attr (var ''n_samples_range'') ''size'', var ''repeat'']] []),
      assign ''oa_mse'' (call_method ''np'' ''zeros''
        [tuple_display [attr (var ''n_samples_range'') ''size'', var ''repeat'']] []),
      assign ''lw_shrinkage'' (call_method ''np'' ''zeros''
        [tuple_display [attr (var ''n_samples_range'') ''size'', var ''repeat'']] []),
      assign ''oa_shrinkage'' (call_method ''np'' ''zeros''
        [tuple_display [attr (var ''n_samples_range'') ''size'', var ''repeat'']] []),
      simulation_loop]"

definition plot_mse_cell :: stmt where
  "plot_mse_cell = block
     [assign ''Ledoit_Wolf'' (call_method ''go'' ''Scatter'' []
        [(''x'', var ''n_samples_range''),
         (''y'', call_method ''lw_mse'' ''mean'' [num 1] []),
         (''error_y'', call (var ''dict'') []
            [(''visible'', lit (VBool True)),
             (''arrayminus'', call_method ''lw_mse'' ''std'' [num 1] [])]),
         (''name'', str ''Ledoit-Wolf''),
         (''mode'', str ''lines''),
         (''line'', call (var ''dict'') [] [(''color'', str ''navy''), (''width'', num 2)])]),
      assign ''OAS'' (call_method ''go'' ''Scatter'' []
        [(''x'', var ''n_samples_range''),
         (''y'', call_method ''oa_mse'' ''mean'' [num 1] []),
         (''error_y'', call (var ''dict'') []
            [(''visible'', lit (VBool True)),
             (''arrayminus'', call_method ''oa_mse'' ''std'' [num 1] [])]),
         (''name'', str ''OAS''),
         (''mode'', str ''lines''),
         (''line'', call (var ''dict'') [] [(''color'', str ''#FF8C00''), (''width'', num 2)])]),
      assign ''data'' (list_display [var ''Ledoit_Wolf'', var ''OAS'']),
      assign ''layout'' (call_method ''go'' ''Layout'' []
        [(''title'', str ''Comparison of covariance estimators''),
         (''yaxis'', call (var ''dict'') [] [(''title'', str ''Squared error'')]),
         (''xaxis'', call (var ''dict'') [] [(''title'', str ''n_samples'')])]),
      assign ''fig'' (call_method ''go'' ''Figure'' [] [(''data'', var ''data''), (''layout'', var ''layout'')])]"

definition show_fig_cell :: stmt where
  "show_fig_cell = block [expr_stmt (call_method ''py'' ''iplot'' [var ''fig''] [])]"

definition plot_shrinkage_cell :: stmt where
  "plot_shrinkage_cell = block
     [assign ''Ledoit_Wolf'' (call_method ''go'' ''Scatter'' []
        [(''x'', var ''n_samples_range''),
         (''y'', call_method ''lw_shrinkage'' ''mean'' [num 1] []),
         (''error_y'', call (var ''dict'') []
            [(''visible'', lit (VBool True)),
             (''arrayminus'', call_method ''lw_mse'' ''std'' [num 1] [])]),
         (''name'', str ''Ledoit-Wolf''),
         (''mode'', str ''lines''),
         (''line'', call (var ''dict'') [] [(''color'', str ''navy''), (''width'', num 2)])]),
      assign ''OAS'' (call_method ''go'' ''Scatter'' []
        [(''x'', var ''n_samples_range''),
         (''y'', call_method ''oa_shrinkage'' ''mean'' [num 1] []),
         (''error_y'', call (var ''dict'') []
            [(''visible'', lit (VBool True)),
             (''arrayminus'', call_method ''oa_shrinkage'' ''std'' [num 1] [])]),
         (''name'', str ''OAS''),
         (''mode'', str ''lines''),
         (''line'', call (var ''dict'') [] [(''color'', str ''#FF8C00''), (''width'', num 2)])]),
      assign ''data'' (list_display [var ''Ledoit_Wolf'', var ''OAS'']),
      assign ''layout'' (call_method ''go'' ''Layout'' []
        [(''title'', str ''Comparison of covariance estimators''),
         (''yaxis'', call (var ''dict'') [] [(''title'', str ''Shrinkage'')]),
         (''xaxis'', call (var ''dict'') [] [(''title'', str ''n_samples'')])]),
      assign ''fig'' (call_method ''go'' ''Figure'' [] [(''data'', var ''data''), (''layout'', var ''layout'')])]"

definition publish_cell :: stmt where
  "publish_cell = block
     [from_import ''IPython.display'' [''display'', ''HTML''],
      expr_stmt (call (var ''display'')
        [call (var ''HTML'')
           [str (''<link href='' @ [CHR 0x22] @ ''//fonts.googleapis.com/css?family=Open+Sans:600,400,300,200|Inconsolata|Ubuntu+Mono:400,700'' @ [CHR 0x22] @ '' rel='' @ [CHR 0x22] @ ''stylesheet'' @ [CHR 0x22] @ '' type='' @ [CHR 0x22] @ ''text/css'' @ [CHR 0x22] @ '' />'')] []] []),
      expr_stmt (call (var ''display'')
        [call (var ''HTML'')
           [str (''<link rel='' @ [CHR 0x22] @ ''stylesheet'' @ [CHR 0x22] @ '' type='' @ [CHR 0x22] @ ''text/css'' @ [CHR 0x22] @ '' href='' @ [CHR 0x22] @ ''http://help.plot.ly/documentation/all_static/css/ipython-notebook-custom.css'' @ [CHR 0x22] @ ''>'')] []] []),
      shell ''pip install git+https://github.com/plotly/publisher.git --upgrade'',
      import_as ''publisher'' ''publisher'',
      expr_stmt (call_method ''publisher'' ''publish''
        [str ''Ledoit-Wolf-vs-OAS-estimation.ipynb'',
         str ''scikit-learn/plot-lw-vs-oas/'',
         str ''Ledoit-Wolf vs OAS Estimation | plotly'',
         str '' '']
        [(''title'', str ''Ledoit-Wolf vs OAS Estimation | plotly''),
         (''name'', str ''Ledoit-Wolf vs OAS Estimation''),
         (''has_thumbnail'', str ''true''),
         (''thumbnail'', str ''thumbnail/ledoit.jpg''),
         (''language'', str ''scikit-learn''),
         (''page_type'', str ''example_index''),
         (''display_as'', str ''covariance_estimation''),
         (''order'', num 1),
         (''ipynb'', str ''~Diksha_Gabha/2871'')])]"

definition empty_cell :: stmt where
  "empty_cell = block []"

definition notebook :: "stmt list" where
  "notebook =
     [version_cell, imports_cell, calculations_cell, plot_mse_cell, show_fig_cell,
      plot_shrinkage_cell, show_fig_cell, publish_cell, empty_cell]"

text \<open>
  A kernel as IPython starts it: only \<^verbatim>\<open>__doc__\<close> is bound, the generator is
  initialised from the entropy of the operating system, nothing has happened yet.
\<close>

definition fresh_kernel :: "nat \<Rightarrow> (string \<Rightarrow> int) \<Rightarrow> kernel" where
  "fresh_kernel entropy os =
     \<lparr>names = [''__doc__'' \<mapsto> VStr ''Automatically created module for IPython interactive environment''],
      rng_state = Rng (Entropy entropy) 0,
      trace = [],
      exit_status = os\<rparr>"

section \<open>The outputs stored with the cells\<close>

text \<open>
  Both files keep what each code cell printed or displayed when its author ran it: for
  a result or a display, the text of each MIME type; for a stream, the lines written.
\<close>

datatype cell_output =
    Execute_result "(string \<times> string list) list"
  | Display_data "(string \<times> string list) list"
  | Stream string "string list"

text \<open>The embedded chart that \<^verbatim>\<open>py.iplot\<close> returned, with the address of the chart.\<close>

definition igraph_iframe :: "string \<Rightarrow> string" where
  "igraph_iframe src =
     (''<iframe id='' @ [CHR 0x22] @ ''igraph'' @ [CHR 0x22] @ '' scrolling='' @ [CHR 0x22]
      @ ''no'' @ [CHR 0x22] @ '' style='' @ [CHR 0x22] @ ''border:none;'' @ [CHR 0x22]
      @ '' seamless='' @ [CHR 0x22] @ ''seamless'' @ [CHR 0x22] @ '' src='' @ [CHR 0x22]) @ src
      @ ([CHR 0x22] @ '' height='' @ [CHR 0x22] @ ''525px'' @ [CHR 0x22] @ '' width='' @ [CHR 0x22]
      @ ''100%'' @ [CHR 0x22] @ ''></iframe>'')"

definition notebook_outputs :: "cell_output list list" where
  "notebook_outputs =
     [[Execute_result
        [(''text/plain'',
         [([CHR 0x27] @ ''0.18'' @ [CHR 0x27])])]],
      [Stream ''stdout''
         [(''Automatically created module for IPython interactive environment'' @ [CHR 0x0A])]],
      [],
      [],
      [Execute_result
        [(''text/html'',
         [igraph_iframe ''https://plot.ly/~Diksha_Gabha/2867.embed'']),
         (''text/plain'',
         [''<plotly.tools.PlotlyDisplay object>''])]],
      [],
      [Execute_result
        [(''text/html'',
         [igraph_iframe ''https://plot.ly/~Diksha_Gabha/2869.embed'']),
         (''text/plain'',
         [''<plotly.tools.PlotlyDisplay object>''])]],
      [Display_data
        [(''text/html'',
         [(''<link href='' @ [CHR 0x22]
          @ ''//fonts.googleapis.com/css?family=Open+Sans:600,400,300,200|Inconsolata|Ubuntu+Mono:400,700''
          @ [CHR 0x22] @ '' rel='' @ [CHR 0x22] @ ''stylesheet'' @ [CHR 0x22] @ '' type=''
          @ [CHR 0x22] @ ''text/css'' @ [CHR 0x22] @ '' />'')]),
         (''text/plain'',
         [''<IPython.core.display.HTML object>''])],
       Display_data
        [(''text/html'',
         [(''<link rel='' @ [CHR 0x22] @ ''stylesheet'' @ [CHR 0x22] @ '' type='' @ [CHR 0x22]
          @ ''text/css'' @ [CHR 0x22] @ '' href='' @ [CHR 0x22]
          @ ''http://help.plot.ly/documentation/all_static/css/ipython-notebook-custom.css''
          @ [CHR 0x22] @ ''>'')]),
         (''text/plain'',
         [''<IPython.core.display.HTML object>''])],
       Stream ''stdout''
         [(''Collecting git+https://github.com/plotly/publisher.git'' @ [CHR 0x0A]),
          (''  Cloning https://github.com/plotly/publisher.git to /tmp/pip-mhXnyL-build'' @ [CHR 0x0A]),
          (''Installing collected packages: publisher'' @ [CHR 0x0A]),
          (''  Running setup.py install for publisher ... '' @ [CHR 0x1B] @ ''[?25l-'' @ [CHR 0x08]
          @ '' '' @ [CHR 0x08] @ ''error'' @ [CHR 0x0A]),
          (''    Complete output from command /usr/bin/python -u -c '' @ [CHR 0x22]
          @ ''import setuptools, tokenize;__file__='' @ [CHR 0x27]
          @ ''/tmp/pip-mhXnyL-build/setup.py'' @ [CHR 0x27] @ '';exec(compile(getattr(tokenize, ''
          @ [CHR 0x27] @ ''open'' @ [CHR 0x27] @ '', open)(__file__).read().replace(''
          @ [CHR 0x27, CHR 0x5C] @ ''r'' @ [CHR 0x5C] @ ''n'' @ [CHR 0x27] @ '', ''
          @ [CHR 0x27, CHR 0x5C] @ ''n'' @ [CHR 0x27] @ ''), __file__, '' @ [CHR 0x27] @ ''exec''
          @ [CHR 0x27] @ ''))'' @ [CHR 0x22]
          @ '' install --record /tmp/pip-neKoOx-record/install-record.txt --single-version-externally-managed --compile:''
          @ [CHR 0x0A]),
          (''    running install'' @ [CHR 0x0A]),
          (''    running build'' @ [CHR 0x0A]),
          (''    running build_py'' @ [CHR 0x0A]),
          (''    creating build'' @ [CHR 0x0A]),
          (''    creating build/lib.linux-x86_64-2.7'' @ [CHR 0x0A]),
          (''    creating build/lib.linux-x86_64-2.7/publisher'' @ [CHR 0x0A]),
          (''    copying publisher/publisher.py -> build/lib.linux-x86_64-2.7/publisher'' @ [CHR 0x0A]),
          (''    copying publisher/__init__.py -> build/lib.linux-x86_64-2.7/publisher'' @ [CHR 0x0A]),
          (''    running install_lib'' @ [CHR 0x0A]),
          (''    creating /usr/local/lib/python2.7/dist-packages/publisher'' @ [CHR 0x0A]),
          (''    error: could not create '' @ [CHR 0x27]
          @ ''/usr/local/lib/python2.7/dist-packages/publisher'' @ [CHR 0x27]
          @ '': Permission denied'' @ [CHR 0x0A]),
          (''    '' @ [CHR 0x0A]),
          (''    ----------------------------------------'' @ [CHR 0x0A]),
          ([CHR 0x1B] @ ''[31mCommand '' @ [CHR 0x22] @ ''/usr/bin/python -u -c '' @ [CHR 0x22]
          @ ''import setuptools, tokenize;__file__='' @ [CHR 0x27]
          @ ''/tmp/pip-mhXnyL-build/setup.py'' @ [CHR 0x27] @ '';exec(compile(getattr(tokenize, ''
          @ [CHR 0x27] @ ''open'' @ [CHR 0x27] @ '', open)(__file__).read().replace(''
          @ [CHR 0x27, CHR 0x5C] @ ''r'' @ [CHR 0x5C] @ ''n'' @ [CHR 0x27] @ '', ''
          @ [CHR 0x27, CHR 0x5C] @ ''n'' @ [CHR 0x27] @ ''), __file__, '' @ [CHR 0x27] @ ''exec''
          @ [CHR 0x27] @ ''))'' @ [CHR 0x22]
          @ '' install --record /tmp/pip-neKoOx-record/install-record.txt --single-version-externally-managed --compile''
          @ [CHR 0x22] @ '' failed with error code 1 in /tmp/pip-mhXnyL-build/'' @ [CHR 0x1B]
          @ ''[0m'' @ [CHR 0x0A]),
          ([CHR 0x1B] @ ''[33mYou are using pip version 8.1.2, however version 9.0.1 is available.''
          @ [CHR 0x0A]),
          (''You should consider upgrading via the '' @ [CHR 0x27] @ ''pip install --upgrade pip''
          @ [CHR 0x27] @ '' command.'' @ [CHR 0x1B] @ ''[0m'' @ [CHR 0x0A]),
          ([CHR 0x1B] @ ''[?25h'')]],
      []]"

definition page_outputs :: "cell_output list list" where
  "page_outputs =
     [[Execute_result [(''text/html'', [igraph_iframe ''https://plot.ly/~PythonPlotBot/2622.embed''])]],
      [Execute_result [(''text/html'', [igraph_iframe ''https://plot.ly/~PythonPlotBot/2624.embed''])]],
      [Execute_result [(''text/html'', [igraph_iframe ''https://plot.ly/~PythonPlotBot/2626.embed''])]],
      [Execute_result [(''text/html'', [igraph_iframe ''https://plot.ly/~PythonPlotBot/2628.embed''])]],
      [Execute_result [(''text/html'', [igraph_iframe ''https://plot.ly/~PythonPlotBot/2630.embed''])]],
      [Execute_result [(''text/html'', [igraph_iframe ''https://plot.ly/~PythonPlotBot/2632.embed''])]],
      [Execute_result [(''text/html'', [igraph_iframe ''https://plot.ly/~jordanpeterson/440.embed''])]]]"

text \<open>The lines of an output, whatever their MIME type.\<close>

fun output_lines :: "cell_output \<Rightarrow> string list" where
  "output_lines (Execute_result d) = concat (map snd d)"
| "output_lines (Display_data d) = concat (map snd d)"
| "output_lines (Stream n ls) = ls"

fun starts_with :: "string \<Rightarrow> string \<Rightarrow> bool" where
  "starts_with [] s = True"
| "starts_with (c # p) [] = False"
| "starts_with (c # p) (d # s) = (if c = d then starts_with p s else False)"

text \<open>The line contains the phrase.\<close>

fun mentions :: "string \<Rightarrow> string \<Rightarrow> bool" where
  "mentions p [] = (p = [])"
| "mentions p (c # s) = (starts_with p (c # s) \<or> mentions p s)"

text \<open>
  A transcript of a failed installation of the \<^verbatim>\<open>publisher\<close> package: pip installs
  the package, is denied permission, and reports error code 1.
\<close>

definition shows_failed_install :: "cell_output \<Rightarrow> bool" where
  "shows_failed_install out =
     (if list_ex (mentions ''Installing collected packages: publisher'') (output_lines out)
      then (if list_ex (mentions ''Permission denied'') (output_lines out)
            then list_ex (mentions ''failed with error code 1'') (output_lines out)
            else False)
      else False)"

section \<open>What a run does\<close>

text \<open>A document is run cell by cell, from the top; an exception stops the run.\<close>

definition run_all :: "stmt list \<Rightarrow> stmt" where
  "run_all cells = block cells"

text \<open>
  The kernel after the names of \<open>bs\<close> have been bound, in this order, and the events
  \<open>es\<close> have happened.
\<close>

definition extend :: "(string \<times> pyval) list \<Rightarrow> event list \<Rightarrow> kernel \<Rightarrow> kernel" where
  "extend bs es s = s\<lparr>names := names s ++ map_of (rev bs), trace := trace s @ es\<rparr>"

text \<open>
  No builtin the documents call is shadowed by a binding of the namespace. (A binding
  of \<^verbatim>\<open>dict\<close>, \<^verbatim>\<open>range\<close> or \<^verbatim>\<open>enumerate\<close> would be called in its place.)
\<close>

definition builtins_visible :: "kernel \<Rightarrow> bool" where
  "builtins_visible s = (\<forall>b \<in> set builtins. names s b = None)"

text \<open>The names of the notebook's imports cell are bound as that cell binds them.\<close>

definition imports_in_force :: "kernel \<Rightarrow> bool" where
  "imports_in_force s =
     (names s ''py'' = Some (VLib ''plotly.plotly'') \<and>
      names s ''go'' = Some (VLib ''plotly.graph_objs'') \<and>
      names s ''np'' = Some (VLib ''numpy'') \<and>
      names s ''toeplitz'' = Some (VLib ''scipy.linalg.toeplitz'') \<and>
      names s ''cholesky'' = Some (VLib ''scipy.linalg.cholesky'') \<and>
      names s ''LedoitWolf'' = Some (VLib ''sklearn.covariance.LedoitWolf'') \<and>
      names s ''OAS'' = Some (VLib ''sklearn.covariance.OAS''))"

text \<open>The events a statement adds to the trace, and its outcome: the exception, if any, and these events.\<close>

definition new_events :: "stmt \<Rightarrow> kernel \<Rightarrow> event list" where
  "new_events c s = drop (length (trace s)) (trace (snd (c s)))"

definition outcome :: "stmt \<Rightarrow> kernel \<Rightarrow> error option \<times> event list" where
  "outcome c s = (fst (c s), new_events c s)"

text \<open>
  A statement reads a name in a state when its outcome there depends on the binding of
  the name: without the binding the outcome is another.
\<close>

definition reads :: "stmt \<Rightarrow> string \<Rightarrow> kernel \<Rightarrow> bool" where
  "reads c x s = (outcome c (s\<lparr>names := (names s)(x := None)\<rparr>) \<noteq> outcome c s)"

text \<open>The chart descriptions sent to the plotting service: the arguments of each \<^verbatim>\<open>py.iplot\<close>.\<close>

fun submissions :: "event list \<Rightarrow> (pyval list \<times> (string \<times> pyval) list) list" where
  "submissions [] = []"
| "submissions (Remote f args kws # es) =
     (if f = ''plotly.plotly.iplot'' then (args, kws) # submissions es else submissions es)"
| "submissions (e # es) = submissions es"

text \<open>
  The kinds of step the specification lists for an example document: (a) a numeric
  dataset is generated or loaded (numpy, scipy), (b) an external statistics routine is
  called (scikit-learn), (c) a chart description is constructed
  (\<^verbatim>\<open>plotly.graph_objs\<close>), (d) it is sent to the remote rendering call
  (\<^verbatim>\<open>plotly.plotly\<close>). Anything else is \<open>Other\<close>.
\<close>

datatype step_kind = Dataset | Statistics | Chart | Render | Other

definition lib_kind :: "string \<Rightarrow> step_kind" where
  "lib_kind p =
     (if starts_with ''numpy.'' p \<or> starts_with ''scipy.'' p then Dataset
      else if starts_with ''sklearn.'' p then Statistics
      else if starts_with ''plotly.graph_objs.'' p then Chart
      else if starts_with ''plotly.plotly.'' p then Render
      else Other)"

fun kind_of :: "event \<Rightarrow> step_kind" where
  "kind_of (Lib p) = lib_kind p"
| "kind_of (Remote p args kws) = lib_kind p"
| "kind_of (Stdout v) = Other"
| "kind_of (Shell cmd) = Other"

text \<open>Fields of a chart description (keyword arguments of a plotly object, keys of a dict).\<close>

fun field :: "string \<Rightarrow> pyval \<Rightarrow> pyval option" where
  "field k (VObj c args kws) = map_of kws k"
| "field k (VDict kws) = map_of kws k"
| "field k v = None"

section \<open>The simulation in closed form\<close>

text \<open>
  The values the calculations cell computes, written without the loop: the reference
  the cell is compared with. \<open>real_cov_val\<close> is \<^verbatim>\<open>toeplitz(r ** np.arange(n_features))\<close>,
  \<open>coloring_val\<close> its Cholesky factor.
\<close>

definition real_cov_val :: pyval where
  "real_cov_val =
     VRes ''scipy.linalg.toeplitz''
       [VRes ''numpy.ndarray.__rpow__'' [VArr (map VInt (int_range 0 100 1)), VFloat False 1 (-1)] []] []"

definition coloring_val :: pyval where
  "coloring_val = VRes ''scipy.linalg.cholesky'' [real_cov_val] []"

text \<open>
  The normal variates drawn since the seed before row \<open>i\<close> of the simulation starts:
  row \<open>i\<close> draws 100 samples of \<open>6 + i\<close> points with 100 features.
\<close>

fun drawn_before_row :: "nat \<Rightarrow> nat" where
  "drawn_before_row 0 = 0"
| "drawn_before_row (Suc i) = drawn_before_row i + 100 * ((6 + i) * 100)"

text \<open>The sample \<open>X\<close> of round \<open>(i, j)\<close>: \<open>6 + i\<close> points drawn after seed 0, coloured.\<close>

definition sample_val :: "nat \<Rightarrow> nat \<Rightarrow> pyval" where
  "sample_val i j =
     VRes ''numpy.dot''
       [VSample (Rng (Seed 0) (drawn_before_row i + j * ((6 + i) * 100))) (6 + i) 100,
        VAttr coloring_val ''T''] []"

definition estimator_val :: "string \<Rightarrow> pyval" where
  "estimator_val c = VObj c [] [(''store_precision'', VBool False), (''assume_centered'', VBool True)]"

definition mse_val :: "string \<Rightarrow> nat \<Rightarrow> nat \<Rightarrow> pyval" where
  "mse_val c i j =
     VRes (c @ ''.error_norm'') [VFitted (estimator_val c) (sample_val i j), real_cov_val]
       [(''scaling'', VBool False)]"

definition shrinkage_val :: "string \<Rightarrow> nat \<Rightarrow> nat \<Rightarrow> pyval" where
  "shrinkage_val c i j = VAttr (VFitted (estimator_val c) (sample_val i j)) ''shrinkage_''"

text \<open>
  A 25 by 100 result array in which the rounds before \<open>(i, j)\<close> are filled in with \<open>f\<close>
  and the others still hold the \<open>0.0\<close> of \<^verbatim>\<open>np.zeros\<close>.
\<close>

definition filled :: "(nat \<Rightarrow> nat \<Rightarrow> pyval) \<Rightarrow> nat \<Rightarrow> nat \<Rightarrow> pyval" where
  "filled f i j =
     VArr (map (\<lambda>a. VArr (map (\<lambda>b. if a < i \<or> (a = i \<and> b < j) then f a b else VFloat False 0 (-1))
                               [0..<100]))
               [0..<25])"

definition result_array :: "(nat \<Rightarrow> nat \<Rightarrow> pyval) \<Rightarrow> pyval" where
  "result_array f = VArr (map (\<lambda>a. VArr (map (\<lambda>b. f a b) [0..<100])) [0..<25])"

text \<open>Element \<open>(i, j)\<close> of a matrix.\<close>

definition entry :: "pyval \<Rightarrow> nat \<Rightarrow> nat \<Rightarrow> pyval option" where
  "entry a i j =
     (case a of
        VArr rows \<Rightarrow>
          (if i < length rows
           then (case rows ! i of
                   VArr row \<Rightarrow> if j < length row then Some (row ! j) else None
                 | _ \<Rightarrow> None)
           else None)
      | _ \<Rightarrow> None)"

text \<open>
  The charts the plotting cells build, written as values: a line of the row means of
  \<open>ys\<close> over \<open>xs\<close> whose lower error bars are the row standard deviations of \<open>errs\<close>,
  and the figure of the two lines.
\<close>

definition line_trace :: "pyval \<Rightarrow> pyval \<Rightarrow> pyval \<Rightarrow> string \<Rightarrow> string \<Rightarrow> pyval" where
  "line_trace xs ys errs label colour =
     VObj ''plotly.graph_objs.Scatter'' []
       [(''x'', xs),
        (''y'', VRes ''numpy.ndarray.mean'' [ys, VInt 1] []),
        (''error_y'', VDict [(''visible'', VBool True),
           (''arrayminus'', VRes ''numpy.ndarray.std'' [errs, VInt 1] [])]),
        (''name'', VStr label),
        (''mode'', VStr ''lines''),
        (''line'', VDict [(''color'', VStr colour), (''width'', VInt 2)])]"

definition comparison_layout :: "string \<Rightarrow> pyval" where
  "comparison_layout ytitle =
     VObj ''plotly.graph_objs.Layout'' []
       [(''title'', VStr ''Comparison of covariance estimators''),
        (''yaxis'', VDict [(''title'', VStr ytitle)]),
        (''xaxis'', VDict [(''title'', VStr ''n_samples'')])]"

definition comparison_figure :: "pyval \<Rightarrow> pyval \<Rightarrow> string \<Rightarrow> pyval" where
  "comparison_figure lw_trace oas_trace ytitle =
     VObj ''plotly.graph_objs.Figure'' []
       [(''data'', VList [lw_trace, oas_trace]), (''layout'', comparison_layout ytitle)]"

text \<open>
  The events of one round of the simulation, of the statements before the loop, and of
  the whole calculations cell.
\<close>

definition round_events :: "event list" where
  "round_events =
     [Lib ''numpy.random.normal'', Lib ''numpy.dot'',
      Lib ''sklearn.covariance.LedoitWolf'', Lib ''sklearn.covariance.LedoitWolf.fit'',
      Lib ''sklearn.covariance.LedoitWolf.error_norm'',
      Lib ''sklearn.covariance.OAS'', Lib ''sklearn.covariance.OAS.fit'',
      Lib ''sklearn.covariance.OAS.error_norm'']"

definition setup_events :: "event list" where
  "setup_events =
     [Lib ''numpy.random.seed'', Lib ''numpy.arange'', Lib ''numpy.ndarray.__rpow__'',
      Lib ''scipy.linalg.toeplitz'', Lib ''scipy.linalg.cholesky'', Lib ''numpy.arange'',
      Lib ''numpy.zeros'', Lib ''numpy.zeros'', Lib ''numpy.zeros'', Lib ''numpy.zeros'']"

definition calculation_events :: "event list" where
  "calculation_events = setup_events @ concat (replicate (25 * 100) round_events)"

text \<open>The names the calculations cell assigns.\<close>

definition calculation_names :: "string list" where
  "calculation_names =
     [''n_features'', ''r'', ''real_cov'', ''coloring_matrix'', ''n_samples_range'', ''repeat'',
      ''lw_mse'', ''oa_mse'', ''lw_shrinkage'', ''oa_shrinkage'', ''i'', ''n_samples'', ''j'',
      ''X'', ''lw'', ''oa'']"

text \<open>
  The loop invariant of the simulation. The calculations cell started in kernel \<open>s\<close>;
  in kernel \<open>t\<close> round \<open>(i, j)\<close> is about to start: the constants are bound, the four
  result arrays are filled up to this round, the generator has drawn the samples of
  the rounds before, their events are in the trace, and no other name has changed.
\<close>

definition at_round :: "kernel \<Rightarrow> nat \<Rightarrow> nat \<Rightarrow> kernel \<Rightarrow> bool" where
  "at_round s i j t =
     (names t ''n_features'' = Some (VInt 100) \<and>
      names t ''r'' = Some (VFloat False 1 (-1)) \<and>
      names t ''real_cov'' = Some real_cov_val \<and>
      names t ''coloring_matrix'' = Some coloring_val \<and>
      names t ''n_samples_range'' = Some (VArr (map VInt (int_range 6 31 1))) \<and>
      names t ''repeat'' = Some (VInt 100) \<and>
      names t ''lw_mse'' = Some (filled (mse_val ''sklearn.covariance.LedoitWolf'') i j) \<and>
      names t ''oa_mse'' = Some (filled (mse_val ''sklearn.covariance.OAS'') i j) \<and>
      names t ''lw_shrinkage'' = Some (filled (shrinkage_val ''sklearn.covariance.LedoitWolf'') i j) \<and>
      names t ''oa_shrinkage'' = Some (filled (shrinkage_val ''sklearn.covariance.OAS'') i j) \<and>
      (\<forall>x. x \<notin> set calculation_names \<longrightarrow> names t x = names s x) \<and>
      rng_state t = Rng (Seed 0) (drawn_before_row i + j * ((6 + i) * 100)) \<and>
      trace t = trace s @ setup_events @ concat (replicate (i * 100 + j) round_events) \<and>
      exit_status t = exit_status s)"

text \<open>
  The shape of a matrix the libraries return, by their documentation: a sample has the
  requested size, \<^verbatim>\<open>.T\<close> transposes, \<^verbatim>\<open>np.dot\<close> of an \<open>n \<times> k\<close> and a \<open>k \<times> p\<close>
  matrix is \<open>n \<times> p\<close>, the Toeplitz matrix of a vector of length \<open>n\<close> and the Cholesky
  factor of an \<open>n \<times> n\<close> matrix are \<open>n \<times> n\<close>.
\<close>

fun vector_length :: "pyval \<Rightarrow> nat option" where
  "vector_length (VArr xs) = Some (length xs)"
| "vector_length (VRes f [b, a] kws) =
     (if f = ''numpy.ndarray.__rpow__'' then vector_length b else None)"
| "vector_length v = None"

fun shape :: "pyval \<Rightarrow> (nat \<times> nat) option" where
  "shape (VSample g n p) = Some (n, p)"
| "shape (VAttr v a) =
     (if a = ''T'' then (case shape v of Some (n, p) \<Rightarrow> Some (p, n) | None \<Rightarrow> None) else None)"
| "shape (VRes f [a] kws) =
     (if f = ''scipy.linalg.toeplitz''
      then (case vector_length a of Some n \<Rightarrow> Some (n, n) | None \<Rightarrow> None)
      else if f = ''scipy.linalg.cholesky''
      then (case shape a of Some (n, p) \<Rightarrow> if n = p then Some (n, n) else None | None \<Rightarrow> None)
      else None)"
| "shape (VRes f [a, b] kws) =
     (if f = ''numpy.dot''
      then (case (shape a, shape b) of
              (Some (n, k), Some (k', p)) \<Rightarrow> if k = k' then Some (n, p) else None
            | _ \<Rightarrow> None)
      else None)"
| "shape v = None"

section \<open>Running the cells\<close>

lemmas expr_defs = lit_def var_def list_display_def tuple_display_def attr_def call_def
  call_method_def pow_def neg_def num_def str_def flt_def nums_def builtins_def
lemmas stmt_defs = assign_def assign_item_def expr_stmt_def print_stmt_def import_as_def
  shell_def for_in_def
lemmas lib_defs = call_lib_def call_builtin_def invoke_method_def lib_classes_def
  estimators_def remote_calls_def np_random_seed_def np_random_normal_def np_arange_def
  np_zeros_def as_shape_def

lemma builtins_visibleD:
  "builtins_visible s \<Longrightarrow> names s ''dict'' = None \<and> names s ''range'' = None \<and> names s ''enumerate'' = None"
  by (simp add: builtins_visible_def builtins_def)

subsection \<open>Kernels extended by bindings and events\<close>

lemma extend_extend [simp]:
  "extend bs2 es2 (extend bs1 es1 s) = extend (bs1 @ bs2) (es1 @ es2) s"
  by (simp add: extend_def)

lemma names_extend:
  "names (extend bs es s) x = (case map_of (rev bs) x of None \<Rightarrow> names s x | Some v \<Rightarrow> Some v)"
  by (simp add: extend_def map_add_def)

lemma trace_extend [simp]: "trace (extend bs es s) = trace s @ es"
  by (simp add: extend_def)

lemma rng_state_extend [simp]: "rng_state (extend bs es s) = rng_state s"
  by (simp add: extend_def)

lemma exit_status_extend [simp]: "exit_status (extend bs es s) = exit_status s"
  by (simp add: extend_def)

subsection \<open>The cells of the error-bars page\<close>

lemma basic_error_bar_run:
  assumes "names s ''dict'' = None"
    and "chart = VObj ''plotly.graph_objs.Scatter'' []
         [(''x'', VList [VInt 0, VInt 1, VInt 2]),
          (''y'', VList [VInt 6, VInt 10, VInt 2]),
          (''error_y'', VDict [(''type'', VStr ''data''),
             (''array'', VList [VInt 1, VInt 2, VInt 3]),
             (''visible'', VBool True)])]"
  shows "basic_error_bar s =
     (None, extend
        [(''py'', VLib ''plotly.plotly''),
         (''go'', VLib ''plotly.graph_objs''),
         (''data'', VList [chart])]
        [Lib ''plotly.graph_objs.Scatter'',
                 Remote ''plotly.plotly.iplot'' [VList [chart]]
                   [(''filename'', VStr ''basic-error-bar'')]] s)"
  using assms by (simp add: basic_error_bar_def expr_defs stmt_defs lib_defs extend_def)

lemma error_bar_asymmetric_array_run:
  assumes "names s ''dict'' = None"
    and "chart = VObj ''plotly.graph_objs.Scatter'' []
         [(''x'', VList [VInt 1, VInt 2, VInt 3, VInt 4]),
          (''y'', VList [VInt 2, VInt 1, VInt 3, VInt 4]),
          (''error_y'', VDict [(''type'', VStr ''data''),
             (''symmetric'', VBool False),
             (''array'', VList [VFloat False 1 (-1), VFloat False 2 (-1), VFloat False 1 (-1),
                VFloat False 1 (-1)]),
             (''arrayminus'', VList [VFloat False 2 (-1), VFloat False 4 (-1), VInt 1,
                VFloat False 2 (-1)])])]"
  shows "error_bar_asymmetric_array s =
     (None, extend
        [(''py'', VLib ''plotly.plotly''),
         (''go'', VLib ''plotly.graph_objs''),
         (''data'', VList [chart])]
        [Lib ''plotly.graph_objs.Scatter'',
                 Remote ''plotly.plotly.iplot'' [VList [chart]]
                   [(''filename'', VStr ''error-bar-asymmetric-array'')]] s)"
  using assms by (simp add: error_bar_asymmetric_array_def expr_defs stmt_defs lib_defs extend_def)

lemma percent_error_bar_run:
  assumes "names s ''dict'' = None"
    and "chart = VObj ''plotly.graph_objs.Scatter'' []
         [(''x'', VList [VInt 0, VInt 1, VInt 2]),
          (''y'', VList [VInt 6, VInt 10, VInt 2]),
          (''error_y'', VDict [(''type'', VStr ''percent''), (''value'', VInt 50),
             (''visible'', VBool True)])]"
  shows "percent_error_bar s =
     (None, extend
        [(''py'', VLib ''plotly.plotly''),
         (''go'', VLib ''plotly.graph_objs''),
         (''data'', VList [chart])]
        [Lib ''plotly.graph_objs.Scatter'',
                 Remote ''plotly.plotly.iplot'' [VList [chart]]
                   [(''filename'', VStr ''percent-error-bar'')]] s)"
  using assms by (simp add: percent_error_bar_def expr_defs stmt_defs lib_defs extend_def)

lemma error_bar_asymmetric_constant_run:
  assumes "names s ''dict'' = None"
    and "chart = VObj ''plotly.graph_objs.Scatter'' []
         [(''x'', VList [VInt 1, VInt 2, VInt 3, VInt 4]),
          (''y'', VList [VInt 2, VInt 1, VInt 3, VInt 4]),
          (''error_y'', VDict [(''type'', VStr ''percent''), (''symmetric'', VBool False),
             (''value'', VInt 15), (''valueminus'', VInt 25)])]"
  shows "error_bar_asymmetric_constant s =
     (None, extend
        [(''py'', VLib ''plotly.plotly''),
         (''go'', VLib ''plotly.graph_objs''),
         (''data'', VList [chart])]
        [Lib ''plotly.graph_objs.Scatter'',
                 Remote ''plotly.plotly.iplot'' [VList [chart]]
                   [(''filename'', VStr ''error-bar-asymmetric-constant'')]] s)"
  using assms by (simp add: error_bar_asymmetric_constant_def expr_defs stmt_defs lib_defs extend_def)

lemma error_bar_horizontal_run:
  assumes "names s ''dict'' = None"
    and "chart = VObj ''plotly.graph_objs.Scatter'' []
         [(''x'', VList [VInt 1, VInt 2, VInt 3, VInt 4]),
          (''y'', VList [VInt 2, VInt 1, VInt 3, VInt 4]),
          (''error_x'', VDict [(''type'', VStr ''percent''), (''value'', VInt 10)])]"
  shows "error_bar_horizontal s =
     (None, extend
        [(''py'', VLib ''plotly.plotly''),
         (''go'', VLib ''plotly.graph_objs''),
         (''data'', VList [chart])]
        [Lib ''plotly.graph_objs.Scatter'',
                 Remote ''plotly.plotly.iplot'' [VList [chart]]
                   [(''filename'', VStr ''error-bar-horizontal'')]] s)"
  using assms by (simp add: error_bar_horizontal_def expr_defs stmt_defs lib_defs extend_def)

lemma error_bar_bar_run:
  assumes "names s ''dict'' = None"
    and "control = VObj ''plotly.graph_objs.Bar'' []
         [(''x'', VList [VStr ''Trial 1'', VStr ''Trial 2'', VStr ''Trial 3'']),
          (''y'', VList [VInt 3, VInt 6, VInt 4]),
          (''name'', VStr ''Control''),
          (''error_y'', VDict [(''type'', VStr ''data''),
             (''array'', VList [VInt 1, VFloat False 5 (-1), VFloat False 15 (-1)]),
             (''visible'', VBool True)])]"
    and "experimental = VObj ''plotly.graph_objs.Bar'' []
         [(''x'', VList [VStr ''Trial 1'', VStr ''Trial 2'', VStr ''Trial 3'']),
          (''y'', VList [VInt 4, VInt 7, VInt 3]),
          (''name'', VStr ''Experimental''),
          (''error_y'', VDict [(''type'', VStr ''data''),
             (''array'', VList [VFloat False 5 (-1), VInt 1, VInt 2]),
             (''visible'', VBool True)])]"
    and "layout = VObj ''plotly.graph_objs.Layout'' [] [(''barmode'', VStr ''group'')]"
    and "fig = VObj ''plotly.graph_objs.Figure'' []
         [(''data'', VList [control, experimental]), (''layout'', layout)]"
  shows "error_bar_bar s =
     (None, extend
        [(''py'', VLib ''plotly.plotly''),
         (''go'', VLib ''plotly.graph_objs''),
         (''trace1'', control),
         (''trace2'', experimental),
         (''data'', VList [control, experimental]),
         (''layout'', layout),
         (''fig'', fig)]
        [Lib ''plotly.graph_objs.Bar'', Lib ''plotly.graph_objs.Bar'',
                 Lib ''plotly.graph_objs.Layout'', Lib ''plotly.graph_objs.Figure'',
                 Remote ''plotly.plotly.iplot'' [fig] [(''filename'', VStr ''error-bar-bar'')]] s)"
  using assms by (simp add: error_bar_bar_def expr_defs stmt_defs lib_defs extend_def)

lemma error_bar_style_run:
  assumes "names s ''dict'' = None"
    and "x_theo = VRes ''numpy.linspace'' [VInt (- 4), VInt 4, VInt 100] []"
    and "sincx = VRes ''numpy.sinc'' [x_theo] []"
    and "x = VList
         [VFloat True 38 (-1), VFloat True 303 (-2), VFloat True 191 (-2), VFloat True 146 (-2),
          VFloat True 89 (-2), VFloat True 24 (-2), VFloat True 0 (-1), VFloat False 41 (-2),
          VFloat False 89 (-2), VFloat False 101 (-2), VFloat False 191 (-2),
          VFloat False 228 (-2), VFloat False 279 (-2), VFloat False 356 (-2)]"
    and "y = VList
         [VFloat True 2 (-2), VFloat False 4 (-2), VFloat True 1 (-2), VFloat True 27 (-2),
          VFloat False 36 (-2), VFloat False 75 (-2), VFloat False 103 (-2),
          VFloat False 65 (-2), VFloat False 28 (-2), VFloat False 2 (-2), VFloat True 11 (-2),
          VFloat False 16 (-2), VFloat False 4 (-2), VFloat True 15 (-2)]"
    and "theory_trace = VObj ''plotly.graph_objs.Scatter'' []
         [(''x'', x_theo), (''y'', sincx), (''name'', VStr ''sinc(x)'')]"
    and "measured = VObj ''plotly.graph_objs.Scatter'' []
         [(''x'', x), (''y'', y), (''mode'', VStr ''markers''), (''name'', VStr ''measured''),
          (''error_y'', VDict [(''type'', VStr ''constant''), (''value'', VFloat False 1 (-1)),
             (''color'', VStr ''#85144B''), (''thickness'', VFloat False 15 (-1)),
             (''width'', VInt 3)]),
          (''error_x'', VDict [(''type'', VStr ''constant''), (''value'', VFloat False 2 (-1)),
             (''color'', VStr ''#85144B''), (''thickness'', VFloat False 15 (-1)),
             (''width'', VInt 3)]),
          (''marker'', VDict [(''color'', VStr ''#85144B''), (''size'', VInt 8)])]"
  shows "error_bar_style s =
     (None, extend
        [(''py'', VLib ''plotly.plotly''),
         (''go'', VLib ''plotly.graph_objs''),
         (''np'', VLib ''numpy''),
         (''x_theo'', x_theo),
         (''sincx'', sincx),
         (''x'', x),
         (''y'', y),
         (''trace1'', theory_trace),
         (''trace2'', measured),
         (''data'', VList [theory_trace, measured])]
        [Lib ''numpy.linspace'', Lib ''numpy.sinc'', Lib ''plotly.graph_objs.Scatter'',
                 Lib ''plotly.graph_objs.Scatter'',
                 Remote ''plotly.plotly.iplot'' [VList [theory_trace, measured]]
                   [(''filename'', VStr ''error-bar-style'')]] s)"
  using assms by (simp add: error_bar_style_def expr_defs stmt_defs lib_defs extend_def)

lemmas page_runs =
  basic_error_bar_run [OF _ refl] error_bar_asymmetric_array_run [OF _ refl]
  percent_error_bar_run [OF _ refl] error_bar_asymmetric_constant_run [OF _ refl]
  error_bar_horizontal_run [OF _ refl] error_bar_bar_run [OF _ refl refl refl refl]
  error_bar_style_run [OF _ refl refl refl refl refl refl]

lemma extend_nil [simp]: "extend [] [] s = s"
  by (simp add: extend_def)

subsection \<open>The cells of the notebook around the simulation\<close>

lemma version_cell_run:
  "version_cell s = (None, extend [(''sklearn'', VLib ''sklearn'')] [] s)"
  by (simp add: version_cell_def expr_defs stmt_defs extend_def)

lemma imports_cell_run:
  assumes "names s ''__doc__'' = Some d"
  shows "imports_cell s =
     (None, extend
        [(''py'', VLib ''plotly.plotly''),
         (''go'', VLib ''plotly.graph_objs''),
         (''np'', VLib ''numpy''),
         (''toeplitz'', VLib ''scipy.linalg.toeplitz''),
         (''cholesky'', VLib ''scipy.linalg.cholesky''),
         (''LedoitWolf'', VLib ''sklearn.covariance.LedoitWolf''),
         (''OAS'', VLib ''sklearn.covariance.OAS'')]
        [Stdout d] s)"
  using assms by (simp add: imports_cell_def expr_defs stmt_defs extend_def)

lemma ndarray_method:
  assumes "class_of a = Some ''numpy.ndarray''" "m \<noteq> ''size''"
  shows "call_method x m [lit v] [] (s\<lparr>names := (names s)(x \<mapsto> a)\<rparr>)
         = (Inr (VRes (''numpy.ndarray.'' @ m) [a, v] []),
            s\<lparr>names := (names s)(x \<mapsto> a), trace := trace s @ [Lib (''numpy.ndarray.'' @ m)]\<rparr>)"
  using assms
  by (cases a) (simp_all add: expr_defs lib_defs split: if_splits option.splits)

lemma ndarray_method_bound:
  assumes "names s x = Some a" "class_of a = Some ''numpy.ndarray''" "m \<noteq> ''size''"
  shows "call_method x m [lit v] [] s
         = (Inr (VRes (''numpy.ndarray.'' @ m) [a, v] []),
            s\<lparr>trace := trace s @ [Lib (''numpy.ndarray.'' @ m)]\<rparr>)"
proof -
  have "s\<lparr>names := (names s)(x \<mapsto> a)\<rparr> = s"
    using assms(1) by (simp add: fun_upd_idem)
  then show ?thesis
    using ndarray_method [OF assms(2,3), of x v s] by simp
qed

lemma plot_mse_cell_run:
  assumes "names s ''go'' = Some (VLib ''plotly.graph_objs'')"
    and "names s ''dict'' = None"
    and "names s ''n_samples_range'' = Some xs"
    and "names s ''lw_mse'' = Some a1"
    and "names s ''oa_mse'' = Some a2"
    and "class_of a1 = Some ''numpy.ndarray''"
    and "class_of a2 = Some ''numpy.ndarray''"
    and "lw_trace = line_trace xs a1 a1 ''Ledoit-Wolf'' ''navy''"
    and "oas_trace = line_trace xs a2 a2 ''OAS'' ''#FF8C00''"
  shows "plot_mse_cell s =
     (None, extend
        [(''Ledoit_Wolf'', lw_trace),
         (''OAS'', oas_trace),
         (''data'', VList [lw_trace, oas_trace]),
         (''layout'', comparison_layout ''Squared error''),
         (''fig'', comparison_figure lw_trace oas_trace ''Squared error'')]
        [Lib ''numpy.ndarray.mean'', Lib ''numpy.ndarray.std'', Lib ''plotly.graph_objs.Scatter'',
         Lib ''numpy.ndarray.mean'', Lib ''numpy.ndarray.std'', Lib ''plotly.graph_objs.Scatter'',
         Lib ''plotly.graph_objs.Layout'', Lib ''plotly.graph_objs.Figure''] s)"
  using assms
  by (simp add: plot_mse_cell_def ndarray_method_bound num_def
      lit_def var_def list_display_def call_def str_def builtins_def
      stmt_defs call_lib_def call_builtin_def lib_classes_def remote_calls_def
      call_method_def [of "''go''"]
      extend_def line_trace_def comparison_layout_def comparison_figure_def)

lemma plot_shrinkage_cell_run:
  assumes "names s ''go'' = Some (VLib ''plotly.graph_objs'')"
    and "names s ''dict'' = None"
    and "names s ''n_samples_range'' = Some xs"
    and "names s ''lw_mse'' = Some a1"
    and "names s ''lw_shrinkage'' = Some a3"
    and "names s ''oa_shrinkage'' = Some a4"
    and "class_of a1 = Some ''numpy.ndarray''"
    and "class_of a3 = Some ''numpy.ndarray''"
    and "class_of a4 = Some ''numpy.ndarray''"
    and "lw_trace = line_trace xs a3 a1 ''Ledoit-Wolf'' ''navy''"
    and "oas_trace = line_trace xs a4 a4 ''OAS'' ''#FF8C00''"
  shows "plot_shrinkage_cell s =
     (None, extend
        [(''Ledoit_Wolf'', lw_trace),
         (''OAS'', oas_trace),
         (''data'', VList [lw_trace, oas_trace]),
         (''layout'', comparison_layout ''Shrinkage''),
         (''fig'', comparison_figure lw_trace oas_trace ''Shrinkage'')]
        [Lib ''numpy.ndarray.mean'', Lib ''numpy.ndarray.std'', Lib ''plotly.graph_objs.Scatter'',
         Lib ''numpy.ndarray.mean'', Lib ''numpy.ndarray.std'', Lib ''plotly.graph_objs.Scatter'',
         Lib ''plotly.graph_objs.Layout'', Lib ''plotly.graph_objs.Figure''] s)"
  using assms
  by (simp add: plot_shrinkage_cell_def ndarray_method_bound num_def
      lit_def var_def list_display_def call_def str_def builtins_def
      stmt_defs call_lib_def call_builtin_def lib_classes_def remote_calls_def
      call_method_def [of "''go''"]
      extend_def line_trace_def comparison_layout_def comparison_figure_def)

lemma show_fig_cell_run:
  assumes "names s ''py'' = Some (VLib ''plotly.plotly'')"
    and "names s ''fig'' = Some fig"
  shows "show_fig_cell s = (None, extend [] [Remote ''plotly.plotly.iplot'' [fig] []] s)"
  using assms by (simp add: show_fig_cell_def expr_defs stmt_defs lib_defs extend_def)

lemma publish_cell_run:
  assumes "cmd = ''pip install git+https://github.com/plotly/publisher.git --upgrade''"
    and "fonts = VObj ''IPython.display.HTML''
         [VStr (''<link href='' @ [CHR 0x22] @ ''//fonts.googleapis.com/css?family=Open+Sans:600,400,300,200|Inconsolata|Ubuntu+Mono:400,700'' @ [CHR 0x22] @ '' rel='' @ [CHR 0x22] @ ''stylesheet'' @ [CHR 0x22] @ '' type='' @ [CHR 0x22] @ ''text/css'' @ [CHR 0x22] @ '' />'')] []"
    and "css = VObj ''IPython.display.HTML''
         [VStr (''<link rel='' @ [CHR 0x22] @ ''stylesheet'' @ [CHR 0x22] @ '' type='' @ [CHR 0x22] @ ''text/css'' @ [CHR 0x22] @ '' href='' @ [CHR 0x22] @ ''http://help.plot.ly/documentation/all_static/css/ipython-notebook-custom.css'' @ [CHR 0x22] @ ''>'')] []"
  shows "publish_cell s =
     (None, extend
        [(''display'', VLib ''IPython.display.display''),
         (''HTML'', VLib ''IPython.display.HTML''),
         (''_exit_code'', VInt (exit_status s cmd)),
         (''publisher'', VLib ''publisher'')]
        [Lib ''IPython.display.HTML'', Remote ''IPython.display.display'' [fonts] [],
         Lib ''IPython.display.HTML'', Remote ''IPython.display.display'' [css] [],
         Shell cmd,
         Remote ''publisher.publish''
           [VStr ''Ledoit-Wolf-vs-OAS-estimation.ipynb'', VStr ''scikit-learn/plot-lw-vs-oas/'',
            VStr ''Ledoit-Wolf vs OAS Estimation | plotly'', VStr '' '']
           [(''title'', VStr ''Ledoit-Wolf vs OAS Estimation | plotly''),
            (''name'', VStr ''Ledoit-Wolf vs OAS Estimation''),
            (''has_thumbnail'', VStr ''true''),
            (''thumbnail'', VStr ''thumbnail/ledoit.jpg''),
            (''language'', VStr ''scikit-learn''),
            (''page_type'', VStr ''example_index''),
            (''display_as'', VStr ''covariance_estimation''),
            (''order'', VInt 1),
            (''ipynb'', VStr ''~Diksha_Gabha/2871'')]] s)"
  using assms by (simp add: publish_cell_def expr_defs stmt_defs lib_defs extend_def)

lemma empty_cell_run: "empty_cell s = (None, s)"
  by (simp add: empty_cell_def)

subsection \<open>The simulation\<close>

declare for_each.simps [simp del]

lemma for_each_invariant:
  assumes "I 0 s"
    and "\<And>k t. k < length vs \<Longrightarrow> I k t \<Longrightarrow>
           \<exists>t'. block [bind_targets xs (vs ! k), body] t = (None, t') \<and> I (Suc k) t'"
  shows "\<exists>t. for_each xs body vs s = (None, t) \<and> I (length vs) t"
  using assms
proof (induction vs arbitrary: s I)
  case Nil
  then show ?case by (simp add: for_each.simps)
next
  case (Cons v vs)
  from Cons.prems(2) [of 0 s] Cons.prems(1)
  obtain t' where t': "block [bind_targets xs v, body] s = (None, t')" "I (Suc 0) t'"
    by auto
  have "\<exists>t. for_each xs body vs t' = (None, t) \<and> I (Suc (length vs)) t"
  proof (rule Cons.IH [where I = "\<lambda>k. I (Suc k)"])
    show "I (Suc 0) t'" by fact
  next
    fix k t
    assume "k < length vs" "I (Suc k) t"
    then show "\<exists>t'. block [bind_targets xs (vs ! k), body] t = (None, t') \<and> I (Suc (Suc k)) t'"
      using Cons.prems(2) [of "Suc k" t] by simp
  qed
  then show ?case using t' by (simp add: for_each.simps)
qed

lemma length_int_range [simp]: "length (int_range a b k) = nat ((b - a + k - 1) div k)"
  by (simp add: int_range_def)

lemma nth_int_range: "i < nat ((b - a + k - 1) div k) \<Longrightarrow> int_range a b k ! i = a + int i * k"
  by (simp add: int_range_def)

lemma array_size_ints [simp]: "array_size (VArr (map VInt ns)) = length ns"
  by (induction ns) simp_all

lemma sum_list_array_size_ints [simp]: "sum_list (map (array_size \<circ> VInt) ns) = length ns"
  by (induction ns) simp_all

lemma block_result [simp]:
  "(case r of (None, s1) \<Rightarrow> block [] s1 | (Some err, s1) \<Rightarrow> (Some err, s1)) = r"
  by (cases r; cases "fst r") auto

lemma as_ints_ints [simp]: "as_ints (map VInt ns) = Some ns"
  by (induction ns) simp_all

lemma map_upt_update:
  "i < n \<Longrightarrow> (map g [0..<n])[i := y] = map (\<lambda>a. if a = i then y else g a) [0..<n]"
  by (simp add: list_eq_iff_nth_eq nth_list_update)

lemma set_item_filled:
  assumes "i < 25" "j < 100"
  shows "set_item (filled f i j) [VInt (int i), VInt (int j)] (f i j) = Inr (filled f i (Suc j))"
  using assms
  by (auto simp: set_item_def filled_def py_index_def map_upt_update less_Suc_eq)

lemma filled_row_done: "filled f i 100 = filled f (Suc i) 0"
  by (auto simp: filled_def less_Suc_eq)

lemma filled_none: "filled f 0 0 = VArr (replicate 25 (VArr (replicate 100 (VFloat False 0 (-1)))))"
  by (simp add: filled_def map_replicate_const)

lemma filled_all: "filled f 25 0 = result_array f"
  by (simp add: filled_def result_array_def)

lemma set_item_filled_eq:
  "i < 25 \<Longrightarrow> j < 100 \<Longrightarrow> v = f i j \<Longrightarrow>
   set_item (filled f i j) [VInt (int i), VInt (int j)] v = Inr (filled f i (Suc j))"
  by (simp add: set_item_filled)

lemma get_attr_filled [simp]:
  "a \<noteq> ''size'' \<Longrightarrow> get_attr (filled f i j) a = Inr (VAttr (filled f i j) a)"
  by (simp add: filled_def)

lemma get_attr_coloring_val [simp]: "get_attr coloring_val a = Inr (VAttr coloring_val a)"
  by (simp add: coloring_val_def)

lemma simulation_body_run:
  assumes "names t ''np'' = Some (VLib ''numpy'')"
    and "names t ''LedoitWolf'' = Some (VLib ''sklearn.covariance.LedoitWolf'')"
    and "names t ''OAS'' = Some (VLib ''sklearn.covariance.OAS'')"
    and "names t ''i'' = Some (VInt (int i))"
    and "names t ''j'' = Some (VInt (int j))"
    and "names t ''n_samples'' = Some (VInt (6 + int i))"
    and "at_round s i j t"
    and "i < 25" "j < 100"
  shows "simulation_body t =
     (None, (extend
        [(''X'', sample_val i j),
         (''lw'', VFitted (estimator_val ''sklearn.covariance.LedoitWolf'') (sample_val i j)),
         (''lw_mse'', filled (mse_val ''sklearn.covariance.LedoitWolf'') i (Suc j)),
         (''lw_shrinkage'', filled (shrinkage_val ''sklearn.covariance.LedoitWolf'') i (Suc j)),
         (''oa'', VFitted (estimator_val ''sklearn.covariance.OAS'') (sample_val i j)),
         (''oa_mse'', filled (mse_val ''sklearn.covariance.OAS'') i (Suc j)),
         (''oa_shrinkage'', filled (shrinkage_val ''sklearn.covariance.OAS'') i (Suc j))]
        round_events t)
       \<lparr>rng_state := Rng (Seed 0) (drawn_before_row i + Suc j * ((6 + i) * 100))\<rparr>)"
proof -
  have nat6: "nat (6 + int i) = 6 + i" by simp
  show ?thesis
    using assms
    apply (simp add: at_round_def simulation_body_def expr_defs stmt_defs lib_defs
        nat6 set_item_filled_eq Let_def
        mse_val_def shrinkage_val_def sample_val_def estimator_val_def)
    apply (simp add: extend_def round_events_def algebra_simps)
    done
qed

lemma at_round_frame:
  "at_round s i j t \<Longrightarrow> x \<notin> set calculation_names \<Longrightarrow> names t x = names s x"
  by (simp add: at_round_def)

lemma at_round_imports:
  assumes "at_round s i j t" "imports_in_force s" "builtins_visible s"
  shows "names t ''np'' = Some (VLib ''numpy'')"
    and "names t ''LedoitWolf'' = Some (VLib ''sklearn.covariance.LedoitWolf'')"
    and "names t ''OAS'' = Some (VLib ''sklearn.covariance.OAS'')"
    and "names t ''range'' = None"
    and "names t ''enumerate'' = None"
  using assms builtins_visibleD [OF assms(3)]
  by (simp_all add: at_round_frame [OF assms(1)] calculation_names_def imports_in_force_def)

lemma at_round_bind_j:
  "at_round s i j t \<Longrightarrow> at_round s i j (t\<lparr>names := (names t)(''j'' \<mapsto> v)\<rparr>)"
  by (simp add: at_round_def calculation_names_def)

lemma at_round_bind_i:
  "at_round s i j t \<Longrightarrow>
   at_round s i j (t\<lparr>names := (names t)(''i'' \<mapsto> v, ''n_samples'' \<mapsto> w)\<rparr>)"
  by (simp add: at_round_def calculation_names_def)

lemma concat_replicate_commute: "concat (replicate n xs) @ xs = xs @ concat (replicate n xs)"
  by (induction n) simp_all

lemma round_step:
  assumes inv: "at_round s i j t"
    and i: "names t ''i'' = Some (VInt (int i))"
    and n: "names t ''n_samples'' = Some (VInt (6 + int i))"
    and s: "imports_in_force s" "builtins_visible s"
    and bounds: "i < 25" "j < 100"
  shows "\<exists>t'. block [bind_targets [''j''] (VInt (int j)), simulation_body] t = (None, t') \<and>
           at_round s i (Suc j) t' \<and> names t' ''i'' = Some (VInt (int i)) \<and>
           names t' ''n_samples'' = Some (VInt (6 + int i))"
proof -
  define u where "u = t\<lparr>names := (names t)(''j'' \<mapsto> VInt (int j))\<rparr>"
  define t' where "t' = snd (simulation_body u)"
  have inv_u: "at_round s i j u"
    unfolding u_def by (rule at_round_bind_j [OF inv])
  have names_u: "names u ''i'' = Some (VInt (int i))" "names u ''j'' = Some (VInt (int j))"
    "names u ''n_samples'' = Some (VInt (6 + int i))"
    using i n by (simp_all add: u_def)
  note run = simulation_body_run [OF at_round_imports(1-3) [OF inv_u s] names_u inv_u bounds]
  have body: "simulation_body u = (None, t')"
    by (simp add: t'_def run)
  have "block [bind_targets [''j''] (VInt (int j)), simulation_body] t = (None, t')"
    using body by (simp add: u_def)
  moreover have "at_round s i (Suc j) t'"
    unfolding at_round_def
  proof (intro conjI allI impI)
    fix x assume "x \<notin> set calculation_names"
    then show "names t' x = names s x"
      using at_round_frame [OF inv_u, of x]
      by (simp add: t'_def run names_extend calculation_names_def)
  next
    show "trace t' = trace s @ setup_events @ concat (replicate (i * 100 + Suc j) round_events)"
      using inv_u
      by (simp add: t'_def run at_round_def concat_replicate_commute)
  qed (use inv_u in \<open>simp_all add: t'_def run names_extend at_round_def\<close>)
  moreover have "names t' ''i'' = Some (VInt (int i))"
    "names t' ''n_samples'' = Some (VInt (6 + int i))"
    using names_u by (simp_all add: t'_def run names_extend)
  ultimately show ?thesis
    by simp
qed

lemma at_round_row_done: "at_round s i 100 t \<Longrightarrow> at_round s (Suc i) 0 t"
  by (simp add: at_round_def filled_row_done algebra_simps)

lemma row_step:
  assumes inv: "at_round s i 0 t"
    and s: "imports_in_force s" "builtins_visible s"
    and i: "i < 25"
  shows "\<exists>t'. block [bind_targets [''i'', ''n_samples''] (VTuple [VInt (int i), VInt (6 + int i)]),
                      for_in [''j''] (call (var ''range'') [var ''repeat''] []) simulation_body] t
               = (None, t') \<and> at_round s (Suc i) 0 t'"
proof -
  define u where "u = t\<lparr>names := (names t)(''i'' \<mapsto> VInt (int i), ''n_samples'' \<mapsto> VInt (6 + int i))\<rparr>"
  let ?I = "\<lambda>k w. at_round s i k w \<and> names w ''i'' = Some (VInt (int i)) \<and>
              names w ''n_samples'' = Some (VInt (6 + int i))"
  have inv_u: "at_round s i 0 u"
    unfolding u_def by (rule at_round_bind_i [OF inv])
  have repeat: "names u ''repeat'' = Some (VInt 100)"
    using inv_u by (simp add: at_round_def)
  have "\<exists>t'. for_each [''j''] simulation_body (map VInt (int_range 0 100 1)) u = (None, t') \<and>
          ?I (length (map VInt (int_range 0 100 1))) t'"
  proof (rule for_each_invariant)
    show "?I 0 u"
      using inv_u by (simp add: u_def)
  next
    fix k w
    assume "k < length (map VInt (int_range 0 100 1))" and "?I k w"
    then have k: "k < 100" and w: "at_round s i k w" "names w ''i'' = Some (VInt (int i))"
      "names w ''n_samples'' = Some (VInt (6 + int i))"
      by simp_all
    have "map VInt (int_range 0 100 1) ! k = VInt (int k)"
      using k by (simp add: nth_int_range)
    then show "\<exists>t'. block [bind_targets [''j''] (map VInt (int_range 0 100 1) ! k), simulation_body] w
                   = (None, t') \<and> ?I (Suc k) t'"
      using round_step [OF w s i k] by simp
  qed
  then obtain t' where t': "for_each [''j''] simulation_body (map VInt (int_range 0 100 1)) u = (None, t')"
    "at_round s i 100 t'"
    by auto
  have "for_in [''j''] (call (var ''range'') [var ''repeat''] []) simulation_body u = (None, t')"
    using repeat at_round_imports(4) [OF inv_u s] t'(1)
    by (simp add: for_in_def expr_defs call_builtin_def)
  then have "block [bind_targets [''i'', ''n_samples''] (VTuple [VInt (int i), VInt (6 + int i)]),
                    for_in [''j''] (call (var ''range'') [var ''repeat''] []) simulation_body] t
             = (None, t')"
    by (simp add: u_def)
  then show ?thesis
    using at_round_row_done [OF t'(2)] by blast
qed

lemma simulation_loop_run:
  assumes inv: "at_round s 0 0 t"
    and s: "imports_in_force s" "builtins_visible s"
  shows "\<exists>t'. simulation_loop t = (None, t') \<and> at_round s 25 0 t'"
proof -
  define vs where
    "vs = map (\<lambda>(k, x). VTuple [VInt (int k), x]) (enumerate 0 (map VInt (int_range 6 31 1)))"
  have len: "length vs = 25"
    by (simp add: vs_def)
  have nth: "vs ! k = VTuple [VInt (int k), VInt (6 + int k)]" if "k < 25" for k
    using that by (simp add: vs_def nth_enumerate_eq nth_int_range)
  have "\<exists>t'. for_each [''i'', ''n_samples'']
               (for_in [''j''] (call (var ''range'') [var ''repeat''] []) simulation_body) vs t
             = (None, t') \<and> at_round s (length vs) 0 t'"
  proof (rule for_each_invariant [where I = "\<lambda>k. at_round s k 0"])
    show "at_round s 0 0 t" by fact
  next
    fix k w
    assume "k < length vs" and "at_round s k 0 w"
    then show "\<exists>t'. block [bind_targets [''i'', ''n_samples''] (vs ! k),
                          for_in [''j''] (call (var ''range'') [var ''repeat''] []) simulation_body] w
                   = (None, t') \<and> at_round s (Suc k) 0 t'"
      using row_step [OF _ s, of k w] by (simp add: len nth)
  qed
  then obtain t' where t': "for_each [''i'', ''n_samples'']
               (for_in [''j''] (call (var ''range'') [var ''repeat''] []) simulation_body) vs t
             = (None, t')" "at_round s 25 0 t'"
    by (auto simp: len)
  have "names t ''n_samples_range'' = Some (VArr (map VInt (int_range 6 31 1)))"
    using inv by (simp add: at_round_def)
  then have "simulation_loop t = (None, t')"
    using at_round_imports(5) [OF inv s] t'(1)
    by (simp add: simulation_loop_def for_in_def expr_defs call_builtin_def vs_def)
  then show ?thesis
    using t'(2) by blast
qed

lemma calculations_setup:
  assumes "imports_in_force s" "builtins_visible s"
  shows "\<exists>t. calculations_cell s = simulation_loop t \<and> at_round s 0 0 t"
proof -
  have "calculations_cell s = simulation_loop
     ((extend
        [(''n_features'', VInt 100),
         (''r'', VFloat False 1 (-1)),
         (''real_cov'', real_cov_val),
         (''coloring_matrix'', coloring_val),
         (''n_samples_range'', VArr (map VInt (int_range 6 31 1))),
         (''repeat'', VInt 100),
         (''lw_mse'', filled (mse_val ''sklearn.covariance.LedoitWolf'') 0 0),
         (''oa_mse'', filled (mse_val ''sklearn.covariance.OAS'') 0 0),
         (''lw_shrinkage'', filled (shrinkage_val ''sklearn.covariance.LedoitWolf'') 0 0),
         (''oa_shrinkage'', filled (shrinkage_val ''sklearn.covariance.OAS'') 0 0)]
        setup_events s)\<lparr>rng_state := Rng (Seed 0) 0\<rparr>)"
    using assms
    apply (simp add: calculations_cell_def imports_in_force_def expr_defs stmt_defs lib_defs Let_def
        extend_def setup_events_def real_cov_val_def coloring_val_def
        filled_none)
    apply (rule arg_cong [where f = simulation_loop])
    apply (rule kernel.equality)
    apply simp_all
    done
  moreover have "at_round s 0 0 ((extend
        [(''n_features'', VInt 100),
         (''r'', VFloat False 1 (-1)),
         (''real_cov'', real_cov_val),
         (''coloring_matrix'', coloring_val),
         (''n_samples_range'', VArr (map VInt (int_range 6 31 1))),
         (''repeat'', VInt 100),
         (''lw_mse'', filled (mse_val ''sklearn.covariance.LedoitWolf'') 0 0),
         (''oa_mse'', filled (mse_val ''sklearn.covariance.OAS'') 0 0),
         (''lw_shrinkage'', filled (shrinkage_val ''sklearn.covariance.LedoitWolf'') 0 0),
         (''oa_shrinkage'', filled (shrinkage_val ''sklearn.covariance.OAS'') 0 0)]
        setup_events s)\<lparr>rng_state := Rng (Seed 0) 0\<rparr>)"
    by (simp add: at_round_def names_extend calculation_names_def)
  ultimately show ?thesis
    by blast
qed

lemma calculations_cell_run:
  assumes "imports_in_force s" "builtins_visible s"
  shows "\<exists>t. calculations_cell s = (None, t) \<and> at_round s 25 0 t"
proof -
  from calculations_setup [OF assms]
  obtain u where u: "calculations_cell s = simulation_loop u" "at_round s 0 0 u"
    by blast
  from simulation_loop_run [OF u(2) assms] u(1) show ?thesis
    by simp
qed

section \<open>The claims\<close>

text \<open>
  C5. The error-bars page carries static front matter for the site generator; it
  assigns the permalink \<^verbatim>\<open>python/error-bars/\<close>, the title \<^verbatim>\<open>Error Bars | plotly\<close>
  and the thumbnail \<^verbatim>\<open>thumbnail/error-bar.jpg\<close>. Each of the three keys is written
  once, so the value does not depend on how the generator treats repeated keys.
\<close>

theorem front_matter_error_bars:
  "metadata front_matter ''permalink'' = Some ''python/error-bars/'' \<and>
   metadata front_matter ''title'' = Some ''Error Bars | plotly'' \<and>
   metadata front_matter ''thumbnail'' = Some ''thumbnail/error-bar.jpg'' \<and>
   map snd (filter (\<lambda>(k, v). k = ''permalink'') front_matter) = [''python/error-bars/''] \<and>
   map snd (filter (\<lambda>(k, v). k = ''title'') front_matter) = [''Error Bars | plotly''] \<and>
   map snd (filter (\<lambda>(k, v). k = ''thumbnail'') front_matter) = [''thumbnail/error-bar.jpg'']"
  by (simp add: metadata_def front_matter_def)

end
